theory Spec2Isabelle
  imports Complex_Main "HOL-Library.Word" "HOL-Library.Signed_Division"
begin

section \<open>Numeric conventions\<close>

text \<open>
  The three channels (ECG.c, SPO2.c, RESP.c) compute on C \<open>double\<close>, \<open>int\<close>, \<open>u16\<close>
  and \<open>u32\<close> values. A \<open>double\<close> is modelled by a real number: rounding of the binary
  format is not represented, every other step of the code is. An \<open>int\<close> is a
  mathematical integer together with the 32-bit range check at each place where the C
  standard leaves the result undefined; \<open>u16\<close> and \<open>u32\<close> are machine words.

  A conversion from \<open>double\<close> to an integer type truncates toward zero and is undefined
  when the truncated value does not fit; a floating division by zero yields an infinity
  or a NaN whose conversion is undefined as well. Both are the value \<open>None\<close> of the
  model, so a call that returns \<open>Some\<close> is a call with defined behaviour.
\<close>

type_synonym u8 = "8 word"
type_synonym u16 = "16 word"
type_synonym u32 = "32 word"

definition int_range :: "int \<Rightarrow> bool" where
  "int_range k \<longleftrightarrow> - 2147483648 \<le> k \<and> k \<le> 2147483647"

definition trunc0 :: "real \<Rightarrow> int" where
  "trunc0 x = (if 0 \<le> x then \<lfloor>x\<rfloor> else \<lceil>x\<rceil>)"

definition d2i :: "real \<Rightarrow> int option" where
  "d2i x = (if int_range (trunc0 x) then Some (trunc0 x) else None)"


definition c_sub :: "int \<Rightarrow> int \<Rightarrow> int option" where
  "c_sub a b = (if int_range (a - b) then Some (a - b) else None)"

text \<open>What the display and the serial line receive, in call order.\<close>

datatype out =
    OLEDShowString nat nat string
  | OLEDShowNum nat nat int nat nat
  | Printf string "int list"
  | AdjustDAC u16

text \<open>
  The status lines printed by the display routines are a channel number and a value
  between two pairs of square brackets, followed by carriage return and line feed.
\<close>

definition status_line :: "string \<Rightarrow> string" where
  "status_line body = ''['' @ ''['' @ body @ '']'' @ '']'' @ [CHR 0x0D, CHR 0x0A]"

section \<open>Biquad filter stage\<close>

text \<open>
  \<open>arrtemp[0..2]\<close> is the delay line. One call computes the feedback value into
  \<open>arrtemp[0]\<close>, the output from the three registers, and shifts the line by one
  (\<open>arrtemp[2] = arrtemp[1]; arrtemp[1] = arrtemp[0]\<close>). The eight filter functions of
  the sources differ in their coefficient arrays only.
\<close>

type_synonym delay_line = "real \<times> real \<times> real"
type_synonym coeffs = "real \<times> real \<times> real"

definition biquad :: "coeffs \<Rightarrow> coeffs \<Rightarrow> real \<Rightarrow> delay_line \<Rightarrow> real \<times> delay_line" where
  "biquad b a input arrtemp =
     (case (b, a, arrtemp) of ((b0, b1, b2), (a0, a1, a2), (w0, w1, w2)) \<Rightarrow>
        let t0 = input - a1 * w1 - a2 * w2;
            output = b0 * t0 + b1 * w1 + b2 * w2
        in (output, (t0, t0, w1)))"

definition IIRNotch_b :: coeffs where
  "IIRNotch_b = (0.245237275252786, 0.396802246667420, 0.245237275252786)"
definition IIRNotch_a :: coeffs where
  "IIRNotch_a = (1.0, 0.396802246667420, - 0.509525449494429)"

definition ecg_IIRLowpass_b :: coeffs where
  "ecg_IIRLowpass_b = (0.274726851035635, 0.549453702071270, 0.274726851035635)"
definition ecg_IIRLowpass_a :: coeffs where
  "ecg_IIRLowpass_a = (1.0, - 0.0736238463849785, 0.172531250527518)"
definition ecg_IIRHighpass_b :: coeffs where
  "ecg_IIRHighpass_b = (0.948080785129270, - 1.89616157025854, 0.948080785129270)"
definition ecg_IIRHighpass_a :: coeffs where
  "ecg_IIRHighpass_a = (1.0, - 1.89346414636183, 0.898858994155252)"


definition spo2_IIRLowpass_b :: coeffs where
  "spo2_IIRLowpass_b = (0.00512926836610717, 0.0102585367322143, 0.00512926836610717)"
definition spo2_IIRLowpass_a :: coeffs where
  "spo2_IIRLowpass_a = (1.0, - 1.78743251795648, 0.807949591420913)"
definition spo2_IIRHighpass_b :: coeffs where
  "spo2_IIRHighpass_b = (0.989393726763531, - 1.97878745352706, 0.989393726763531)"
definition spo2_IIRHighpass_a :: coeffs where
  "spo2_IIRHighpass_a = (1.0, - 1.97867495733125, 0.978899949722877)"

definition IIRNotch :: "real \<Rightarrow> delay_line \<Rightarrow> real \<times> delay_line" where
  "IIRNotch = biquad IIRNotch_b IIRNotch_a"
definition ecg_IIRLowpass :: "real \<Rightarrow> delay_line \<Rightarrow> real \<times> delay_line" where
  "ecg_IIRLowpass = biquad ecg_IIRLowpass_b ecg_IIRLowpass_a"
definition ecg_IIRHighpass :: "real \<Rightarrow> delay_line \<Rightarrow> real \<times> delay_line" where
  "ecg_IIRHighpass = biquad ecg_IIRHighpass_b ecg_IIRHighpass_a"
definition spo2_IIRLowpass :: "real \<Rightarrow> delay_line \<Rightarrow> real \<times> delay_line" where
  "spo2_IIRLowpass = biquad spo2_IIRLowpass_b spo2_IIRLowpass_a"
definition spo2_IIRHighpass :: "real \<Rightarrow> delay_line \<Rightarrow> real \<times> delay_line" where
  "spo2_IIRHighpass = biquad spo2_IIRHighpass_b spo2_IIRHighpass_a"

section \<open>Moving-average smoother\<close>

text \<open>
  \<open>SmoothingFilter\<close> (ECG.c, window 3; RESP.c, window 100) and \<open>SmoothingFilter_RED\<close>,
  \<open>SmoothingFilter_IR\<close> (SPO2.c, window 5) are the same function up to the window length
  \<open>W\<close>. The function-local statics \<open>i\<close> and \<open>buf\<close> are the record \<open>smoother\<close>. The
  accumulator \<open>num\<close> is an \<open>int\<close>: each \<open>num += buf[n]\<close> adds in \<open>double\<close> and converts
  the sum back to \<open>int\<close>.
\<close>

record smoother =
  sm_i :: nat
  sm_buf :: "real list"

definition smoother_init :: "nat \<Rightarrow> smoother" where
  "smoother_init W = \<lparr>sm_i = 0, sm_buf = replicate W 0\<rparr>"

definition shift_left :: "nat \<Rightarrow> 'a list \<Rightarrow> 'a list" where
  "shift_left len buf = fold (\<lambda>n b. b[n := b ! (n + 1)]) [0..<len - 1] buf"

fun sum_loop :: "real list \<Rightarrow> nat list \<Rightarrow> int \<Rightarrow> int option" where
  "sum_loop buf [] num = Some num"
| "sum_loop buf (n # ns) num =
     (case d2i (real_of_int num + buf ! n) of
        None \<Rightarrow> None
      | Some num' \<Rightarrow> sum_loop buf ns num')"

definition SmoothingFilter :: "nat \<Rightarrow> real \<Rightarrow> smoother \<Rightarrow> (real \<times> smoother) option" where
  "SmoothingFilter W NewData s =
     (if sm_i s < W then
        Some (NewData, s\<lparr>sm_buf := (sm_buf s)[sm_i s := NewData], sm_i := sm_i s + 1\<rparr>)
      else
        let buf = (shift_left W (sm_buf s))[W - 1 := NewData] in
        case sum_loop buf [0..<W] 0 of
          None \<Rightarrow> None
        | Some num \<Rightarrow> Some (real_of_int num * 1.0 / real W, s\<lparr>sm_buf := buf\<rparr>))"

text \<open>A smoother called on a sequence of samples; the outputs in order.\<close>

fun smooth_run :: "nat \<Rightarrow> real list \<Rightarrow> smoother \<Rightarrow> (real list \<times> smoother) option" where
  "smooth_run W [] s = Some ([], s)"
| "smooth_run W (x # xs) s =
     (case SmoothingFilter W x s of
        None \<Rightarrow> None
      | Some (y, s') \<Rightarrow>
          (case smooth_run W xs s' of
             None \<Rightarrow> None
           | Some (ys, s'') \<Rightarrow> Some (y # ys, s'')))"

section \<open>Threshold refresh and rate\<close>

text \<open>
  One step of the max/min scan of \<open>Update_Threshold\<close> and \<open>Analyze_SPO2Wave\<close>: the
  running maximum and minimum after looking at \<open>w[i]\<close>.
\<close>

definition scan_step :: "real list \<Rightarrow> nat \<Rightarrow> real \<times> real \<Rightarrow> real \<times> real" where
  "scan_step w i = (\<lambda>(peakMax, peakMin).
     (if w ! i > peakMax then w ! i else peakMax,
      if w ! i < peakMin then w ! i else peakMin))"

text \<open>
  \<open>Update_Threshold\<close> returns the peak-to-peak value and the threshold. ECG.c stores the
  threshold only; RESP.c stores both.
\<close>

definition Update_Threshold :: "real list \<Rightarrow> nat \<Rightarrow> real \<times> real" where
  "Update_Threshold data_window windowSize =
     (case fold (scan_step data_window) [1..<windowSize] (0.0, 4095.0) of
        (peakMax, peakMin) \<Rightarrow> (peakMax - peakMin, peakMax - (peakMax - peakMin) / 4))"

definition calRate :: "real \<Rightarrow> int option" where
  "calRate ppdistance = (if ppdistance = 0 then None else d2i (60000.0 / ppdistance))"

section \<open>ECG channel (ECG.c)\<close>

text \<open>
  The file-scope statics of ECG.c, the statics of its \<open>SmoothingFilter\<close>, and the level
  of the \<open>ECG_ZERO\<close> output pin (PB1). Arrays are lists whose length is fixed by the
  declaration (\<open>arr_ECG_Wave\<close> has \<open>HR_WAVE_LEN\<close> entries, the smoother ring has
  \<open>WindowsLen\<close>); the theorems below assume these lengths where they read or write an
  entry.
\<close>

abbreviation ecg_WindowsLen :: nat where "ecg_WindowsLen \<equiv> 3"
abbreviation HR_WAVE_LEN :: nat where "HR_WAVE_LEN \<equiv> 300"

record ecg_state =
  ecg_IIRNotch_win :: delay_line
  ecg_IIRLowpass_win :: delay_line
  ecg_IIRHighpass_win :: delay_line
  ecg_smooth :: smoother
  arr_ECG_Wave :: "real list"
  ECG_Wave_index :: nat
  ecg_peakThreshold :: real
  ecg_lastPeak_index :: u32
  ecg_currentPeak_index :: u32
  ecg_heartRate :: int
  ECG_ZERO :: bool

text \<open>The state at program start: C zero-initialises every static.\<close>

definition ecg_start :: ecg_state where
  "ecg_start = \<lparr>ecg_IIRNotch_win = (0, 0, 0), ecg_IIRLowpass_win = (0, 0, 0),
     ecg_IIRHighpass_win = (0, 0, 0), ecg_smooth = smoother_init ecg_WindowsLen,
     arr_ECG_Wave = replicate HR_WAVE_LEN 0, ECG_Wave_index = 0, ecg_peakThreshold = 0,
     ecg_lastPeak_index = 0, ecg_currentPeak_index = 0, ecg_heartRate = 0,
     ECG_ZERO = False\<rparr>"

text \<open>
  \<open>InitECG\<close>: \<open>ConfigECGGPIO\<close> drives \<open>ECG_ZERO\<close> high, then the \<open>memset\<close> calls and the
  assignments. The statics of \<open>SmoothingFilter\<close> are local to that function and are not
  written here.
\<close>

definition InitECG :: "ecg_state \<Rightarrow> ecg_state" where
  "InitECG s = s\<lparr>ECG_ZERO := True,
     ecg_IIRNotch_win := (0, 0, 0), ecg_IIRLowpass_win := (0, 0, 0),
     ecg_IIRHighpass_win := (0, 0, 0),
     arr_ECG_Wave := replicate HR_WAVE_LEN 0, ECG_Wave_index := 0,
     ecg_peakThreshold := 0, ecg_lastPeak_index := 0, ecg_currentPeak_index := 0,
     ecg_heartRate := 0\<rparr>"

text \<open>
  \<open>ECGTask\<close> in four steps, in source order: the filter chain and the smoother
  (\<open>ecg_filter\<close>, which also hands on \<open>output3\<close> for the waveform print), the window
  write with the refresh on wrap (\<open>ecg_store\<close>), the rising-edge detection
  (\<open>ecg_detect\<close>), and the waveform print. \<open>now\<close> is what \<open>GetTimeCounter()\<close> returns
  if it is called; \<open>wave\<close> is \<open>g_displayMode == WAVE_ECG\<close>.
\<close>

definition ecg_filter :: "u32 \<Rightarrow> ecg_state \<Rightarrow> (real \<times> real \<times> ecg_state) option" where
  "ecg_filter inp s =
     (let (output1, nw) = IIRNotch (real (unat inp)) (ecg_IIRNotch_win s);
          (output2, hw) = ecg_IIRHighpass output1 (ecg_IIRHighpass_win s);
          (output3, lw) = ecg_IIRLowpass output2 (ecg_IIRLowpass_win s)
      in (case SmoothingFilter ecg_WindowsLen output3 (ecg_smooth s) of
            None \<Rightarrow> None
          | Some (output4, sm) \<Rightarrow>
              Some (output3, output4,
                    s\<lparr>ecg_IIRNotch_win := nw, ecg_IIRHighpass_win := hw,
                      ecg_IIRLowpass_win := lw, ecg_smooth := sm\<rparr>)))"

definition ecg_store :: "real \<Rightarrow> ecg_state \<Rightarrow> ecg_state" where
  "ecg_store output4 s =
     (let s1 = s\<lparr>arr_ECG_Wave := (arr_ECG_Wave s)[ECG_Wave_index s := output4],
                 ECG_Wave_index := ECG_Wave_index s + 1\<rparr>
      in if ECG_Wave_index s1 \<ge> HR_WAVE_LEN then
           s1\<lparr>ECG_Wave_index := 0,
              ecg_peakThreshold := snd (Update_Threshold (arr_ECG_Wave s1) HR_WAVE_LEN)\<rparr>
         else s1)"

definition ecg_crossing :: "ecg_state \<Rightarrow> bool" where
  "ecg_crossing s \<longleftrightarrow>
     ECG_Wave_index s > 1 \<and> ECG_Wave_index s < HR_WAVE_LEN - 1 \<and>
     arr_ECG_Wave s ! (ECG_Wave_index s - 2) \<le> ecg_peakThreshold s \<and>
     arr_ECG_Wave s ! (ECG_Wave_index s - 1) \<ge> ecg_peakThreshold s"

definition ecg_detect :: "u32 \<Rightarrow> ecg_state \<Rightarrow> ecg_state option" where
  "ecg_detect now s =
     (if ecg_crossing s then
        case calRate (real (unat (now - ecg_lastPeak_index s))) of
          None \<Rightarrow> None
        | Some r \<Rightarrow> Some (s\<lparr>ecg_currentPeak_index := now, ecg_heartRate := r,
                            ecg_lastPeak_index := now\<rparr>)
      else Some s)"

definition ecg_print :: "bool \<Rightarrow> real \<Rightarrow> out list option" where
  "ecg_print wave output3 =
     (if wave then
        case d2i output3 of None \<Rightarrow> None | Some v \<Rightarrow> Some [Printf ''%d '' [v]]
      else Some [])"

definition ECGTask :: "bool \<Rightarrow> u32 \<Rightarrow> u32 \<Rightarrow> ecg_state \<Rightarrow> (out list \<times> ecg_state) option" where
  "ECGTask wave now inp s =
     (case ecg_filter inp s of
        None \<Rightarrow> None
      | Some (output3, output4, s1) \<Rightarrow>
          (case ecg_detect now (ecg_store output4 s1) of
             None \<Rightarrow> None
           | Some s2 \<Rightarrow>
               (case ecg_print wave output3 of
                  None \<Rightarrow> None
                | Some outs \<Rightarrow> Some (outs, s2))))"

text \<open>
  \<open>OLED_ECG\<close>: \<open>lead\<close> is what \<open>GPIO_ReadInputDataBit(GPIOB, GPIO_Pin_0)\<close> returns
  (\<open>LEAD_OFF\<close>, 1 when the electrode is off).
\<close>

definition OLED_ECG :: "u8 \<Rightarrow> ecg_state \<Rightarrow> out list \<times> ecg_state" where
  "OLED_ECG lead s =
     (let hdr = [OLEDShowString 0 0 ''HR:'', OLEDShowString 64 0 ''BPM'',
                 OLEDShowString 0 16 ''ECG_LEAD:'']
      in if lead = 1 then
           (hdr @ [OLEDShowString 88 16 ''Noob'', OLEDShowString 32 0 ''Err'',
                   Printf (status_line ''1,Err'') []],
            s\<lparr>ECG_ZERO := True\<rparr>)
         else if ecg_heartRate s \<ge> 20 \<and> ecg_heartRate s \<le> 250 then
           (hdr @ [OLEDShowString 88 16 ''Good'', OLEDShowNum 32 0 (ecg_heartRate s) 3 16,
                   Printf (status_line ''1,%d'') [ecg_heartRate s]],
            s\<lparr>ECG_ZERO := False\<rparr>)
         else
           (hdr @ [OLEDShowString 88 16 ''Good'', OLEDShowString 32 0 ''Err'',
                   Printf (status_line ''1,Err'') []],
            s\<lparr>ECG_ZERO := False\<rparr>))"

section \<open>RESP channel (RESP.c)\<close>

abbreviation resp_WindowsLen :: nat where "resp_WindowsLen \<equiv> 100"
abbreviation BR_WAVE_LEN :: nat where "BR_WAVE_LEN \<equiv> 1000"

text \<open>
  In RESP.c the two peak times are \<open>double\<close> variables; \<open>now\<close> below is the timer value
  after its conversion to \<open>double\<close>.
\<close>

record resp_state =
  resp_IIRNotch_win :: delay_line
  resp_IIRLowpass_win :: delay_line
  resp_smooth :: smoother
  arr_BR_Wave :: "real list"
  BR_Wave_index :: nat
  resp_peakThreshold :: real
  resp_lastPeak_index :: real
  resp_currentPeak_index :: real
  breathRate :: int
  s_peak2peak :: real

definition resp_start :: resp_state where
  "resp_start = \<lparr>resp_IIRNotch_win = (0, 0, 0), resp_IIRLowpass_win = (0, 0, 0),
     resp_smooth = smoother_init resp_WindowsLen,
     arr_BR_Wave = replicate BR_WAVE_LEN 0, BR_Wave_index = 0, resp_peakThreshold = 0,
     resp_lastPeak_index = 0, resp_currentPeak_index = 0, breathRate = 0,
     s_peak2peak = 0\<rparr>"

definition InitRESP :: "resp_state \<Rightarrow> resp_state" where
  "InitRESP s = s\<lparr>resp_IIRNotch_win := (0, 0, 0), resp_IIRLowpass_win := (0, 0, 0),
     arr_BR_Wave := replicate BR_WAVE_LEN 0, BR_Wave_index := 0,
     resp_peakThreshold := 0, resp_lastPeak_index := 0, resp_currentPeak_index := 0,
     breathRate := 0, s_peak2peak := 0\<rparr>"



definition resp_crossing :: "resp_state \<Rightarrow> bool" where
  "resp_crossing s \<longleftrightarrow>
     BR_Wave_index s > 1 \<and> BR_Wave_index s < BR_WAVE_LEN - 1 \<and>
     arr_BR_Wave s ! (BR_Wave_index s - 2) \<le> resp_peakThreshold s \<and>
     arr_BR_Wave s ! (BR_Wave_index s - 1) \<ge> resp_peakThreshold s"

definition resp_detect :: "real \<Rightarrow> resp_state \<Rightarrow> resp_state option" where
  "resp_detect now s =
     (if resp_crossing s then
        case calRate (now - resp_lastPeak_index s) of
          None \<Rightarrow> None
        | Some r \<Rightarrow> Some (s\<lparr>resp_currentPeak_index := now, breathRate := r,
                            resp_lastPeak_index := now\<rparr>)
      else Some s)"



definition OLED_RESP :: "resp_state \<Rightarrow> out list \<times> resp_state" where
  "OLED_RESP s =
     (let hdr = [OLEDShowString 0 32 ''BR:'', OLEDShowString 64 32 ''BPM'',
                 OLEDShowString 0 48 ''RESP_LEAD:'']
      in if s_peak2peak s < 600 \<or> s_peak2peak s > 3000 then
           (hdr @ [OLEDShowString 88 48 ''Noob'', OLEDShowString 32 32 ''Err'',
                   Printf (status_line ''2,Err'') []], s)
         else if breathRate s \<ge> 5 \<and> breathRate s \<le> 100 then
           (hdr @ [OLEDShowString 88 48 ''Good'', OLEDShowNum 32 32 (breathRate s) 3 16,
                   Printf (status_line ''2,%d'') [breathRate s]], s)
         else
           (hdr @ [OLEDShowString 88 48 ''Good'', OLEDShowString 32 32 ''Err'',
                   Printf (status_line ''2,Err'') []], s))"

section \<open>SpO2 channel (SPO2.c)\<close>

abbreviation SMOOTH_LEN :: nat where "SMOOTH_LEN \<equiv> 5"
abbreviation SP_WAVE_LEN :: nat where "SP_WAVE_LEN \<equiv> 300"
abbreviation R_BUFSIZE :: nat where "R_BUFSIZE \<equiv> 5"
abbreviation RED_INTENSITY_MIN :: u16 where "RED_INTENSITY_MIN \<equiv> 100"
abbreviation RED_INTENSITY_MAX :: u16 where "RED_INTENSITY_MAX \<equiv> 500"
abbreviation RED_INTENSITY_STEP :: u16 where "RED_INTENSITY_STEP \<equiv> 40"
abbreviation ADJUST_STABLE_DELAY :: int where "ADJUST_STABLE_DELAY \<equiv> 1"

text \<open>
  The file-scope statics of SPO2.c, the statics of the two smoothers and of
  \<open>SPO2_LED_Task\<close> (\<open>led_phase\<close>), and the levels of the two LED pins (PA5, PA6).
\<close>

record spo2_state =
  SPO2_Wave_data_RED :: int
  SPO2_Wave_data_IR :: int
  IIRLowpass_win_RED :: delay_line
  IIRLowpass_win_IR :: delay_line
  IIRHighpass_win_RED :: delay_line
  IIRHighpass_win_IR :: delay_line
  smooth_RED :: smoother
  smooth_IR :: smoother
  arr_SPO2_Wave_Rate :: "real list"
  SPO2_Wave_index :: nat
  spo2_peakThreshold :: real
  spo2_lastPeak_index :: int
  spo2_currentPeak_index :: int
  spo2_heartRate :: int
  hr_buf :: "int list"
  hr_cnt :: nat
  arr_SPO2_Wave_RED :: "real list"
  arr_SPO2_Wave_IR :: "real list"
  peak2peak_RED :: real
  peak2peak_IR :: real
  value_R :: real
  value_SPO2 :: real
  rValue_buf :: "int list"
  s_DACdata :: u16
  adjust_wait_cnt :: int
  led_phase :: u8
  RED_LED :: bool
  IR_LED :: bool

definition spo2_start :: spo2_state where
  "spo2_start = \<lparr>SPO2_Wave_data_RED = 0, SPO2_Wave_data_IR = 0,
     IIRLowpass_win_RED = (0, 0, 0), IIRLowpass_win_IR = (0, 0, 0),
     IIRHighpass_win_RED = (0, 0, 0), IIRHighpass_win_IR = (0, 0, 0),
     smooth_RED = smoother_init SMOOTH_LEN, smooth_IR = smoother_init SMOOTH_LEN,
     arr_SPO2_Wave_Rate = replicate SP_WAVE_LEN 0, SPO2_Wave_index = 0,
     spo2_peakThreshold = 0, spo2_lastPeak_index = 0, spo2_currentPeak_index = 0,
     spo2_heartRate = 0, hr_buf = replicate 5 0, hr_cnt = 0,
     arr_SPO2_Wave_RED = replicate SP_WAVE_LEN 0,
     arr_SPO2_Wave_IR = replicate SP_WAVE_LEN 0,
     peak2peak_RED = 0, peak2peak_IR = 0, value_R = 0, value_SPO2 = 0,
     rValue_buf = replicate R_BUFSIZE 0, s_DACdata = 0, adjust_wait_cnt = 0,
     led_phase = 0, RED_LED = False, IR_LED = False\<rparr>"

text \<open>
  \<open>InitSPO2\<close>: \<open>ConfigCSGPIO\<close> switches the RED pin on and the IR pin off, the two
  \<open>memset\<close> calls clear the low-pass delay lines, and the LED drive is set to 240.
\<close>

definition InitSPO2 :: "spo2_state \<Rightarrow> spo2_state" where
  "InitSPO2 s = s\<lparr>RED_LED := True, IR_LED := False,
     IIRLowpass_win_RED := (0, 0, 0), IIRLowpass_win_IR := (0, 0, 0),
     s_DACdata := 240\<rparr>"

text \<open>
  \<open>SPO2_LED_Task\<close>, once per millisecond; \<open>adc\<close> is what \<open>ReadSPO2ADC()\<close> returns if it
  is called.
\<close>

definition SPO2_LED_Task :: "u16 \<Rightarrow> spo2_state \<Rightarrow> spo2_state" where
  "SPO2_LED_Task adc s =
     (let st = (led_phase s + 1) mod 8; s1 = s\<lparr>led_phase := st\<rparr>
      in if st = 0 then s1\<lparr>RED_LED := True, IR_LED := False\<rparr>
         else if st = 2 then
           s1\<lparr>SPO2_Wave_data_RED := uint adc, RED_LED := False, IR_LED := False\<rparr>
         else if st = 4 then s1\<lparr>RED_LED := False, IR_LED := True\<rparr>
         else if st = 6 then
           s1\<lparr>SPO2_Wave_data_IR := uint adc, RED_LED := False, IR_LED := False\<rparr>
         else s1)"

text \<open>
  \<open>Analyze_SPO2Wave\<close>: one loop over \<open>0 .. waveSize - 1\<close> scans the three windows; the
  results are the two peak-to-peak values and the new \<open>peakThreshold\<close>.
\<close>

definition Analyze_SPO2Wave ::
  "real list \<Rightarrow> real list \<Rightarrow> real list \<Rightarrow> nat \<Rightarrow> real \<times> real \<times> real" where
  "Analyze_SPO2Wave wave1 wave2 wave3 waveSize =
     (case fold (\<lambda>i (m1, m2, m3). (scan_step wave1 i m1, scan_step wave2 i m2,
                                   scan_step wave3 i m3))
             [0..<waveSize] ((0.0, 4095.0), (0.0, 4095.0), (0.0, 4095.0)) of
        ((wave1_max, wave1_min), (wave2_max, wave2_min), (wave3_max, wave3_min)) \<Rightarrow>
          (wave1_max - wave1_min, wave2_max - wave2_min,
           wave3_max - (wave3_max - wave3_min) / 3))"

text \<open>
  \<open>bubbleSort\<close>: the swap goes through \<open>uint16_t temp\<close>, so the entry moved up is
  reduced modulo 65536.
\<close>

definition bubble_swap :: "nat \<Rightarrow> int list \<Rightarrow> int list" where
  "bubble_swap j arr =
     (if arr ! j > arr ! (j + 1) then
        (let temp = (arr ! j) mod 65536 in arr[j := arr ! (j + 1), j + 1 := temp])
      else arr)"

definition bubbleSort :: "int list \<Rightarrow> nat \<Rightarrow> int list" where
  "bubbleSort arr sz =
     fold (\<lambda>i a. fold bubble_swap [0..<sz - i - 1] a) [0..<sz - 1] arr"

text \<open>The copy into \<open>tempBuf\<close>, the sort, and the choice of the middle entry.\<close>

definition median_rInt :: "int list \<Rightarrow> int" where
  "median_rInt rbuf =
     (let tempBuf = fold (\<lambda>i t. t[i := rbuf ! i]) [0..<R_BUFSIZE] (replicate R_BUFSIZE 0);
          sorted = bubbleSort tempBuf R_BUFSIZE
      in if R_BUFSIZE mod 2 = 0 then
           (sorted ! (R_BUFSIZE div 2) + sorted ! (R_BUFSIZE div 2 + 1)) sdiv 2
         else sorted ! (R_BUFSIZE div 2))"

text \<open>The table of \<open>calSpO2\<close>; \<open>spo2\<close> is the value stored before the call.\<close>

definition spo2_table :: "int \<Rightarrow> real \<Rightarrow> real" where
  "spo2_table rInt spo2 =
     (if rInt \<le> 450 then 99.0
      else if rInt \<ge> 451 \<and> rInt \<le> 470 then 98.0
      else if rInt \<ge> 471 \<and> rInt \<le> 510 then 97.0
      else if rInt \<ge> 511 \<and> rInt \<le> 540 then 96.0
      else if rInt \<ge> 541 \<and> rInt \<le> 580 then 95.0
      else if rInt \<ge> 581 \<and> rInt \<le> 600 then 94.0
      else if rInt \<ge> 601 \<and> rInt \<le> 620 then 93.0
      else if rInt \<ge> 621 \<and> rInt \<le> 640 then 92.0
      else if rInt \<ge> 641 \<and> rInt \<le> 680 then 91.0
      else if rInt \<ge> 681 \<and> rInt \<le> 720 then 90.0
      else if rInt \<ge> 721 \<and> rInt \<le> 800 then 89.0
      else if rInt \<ge> 801 \<and> rInt \<le> 940 then 88.0
      else if rInt \<ge> 941 \<and> rInt \<le> 980 then 87.0
      else if rInt \<ge> 981 \<and> rInt \<le> 1020 then 86.0
      else if rInt \<ge> 1021 \<and> rInt \<le> 1060 then 85.0
      else if rInt \<ge> 1061 \<and> rInt \<le> 1080 then 84.0
      else if rInt \<ge> 1081 \<and> rInt \<le> 1100 then 83.0
      else if rInt \<ge> 1101 \<and> rInt \<le> 1120 then 82.0
      else if rInt \<ge> 1121 \<and> rInt \<le> 1150 then 81.0
      else if rInt \<ge> 1151 \<and> rInt \<le> 1170 then 80.0
      else if rInt \<ge> 1171 \<and> rInt \<le> 1200 then 79.0
      else spo2)"

definition spo2_clamp :: "real \<Rightarrow> real" where
  "spo2_clamp spo2 = (if spo2 > 100.0 then 100.0 else if spo2 < 70.0 then 70.0 else spo2)"

text \<open>
  \<open>calSpO2\<close> reads and writes \<open>rValue_buf\<close> and \<open>*spo2\<close> and writes \<open>*rValue\<close>; the
  result is the new \<open>(*rValue, rValue_buf, *spo2)\<close>.
\<close>

definition calSpO2 ::
  "real \<Rightarrow> real \<Rightarrow> int list \<Rightarrow> real \<Rightarrow> (real \<times> int list \<times> real) option" where
  "calSpO2 redPeak irPeak rbuf spo2 =
     (if irPeak = 0 then None
      else
        let rValue = redPeak / irPeak * 1000 in
        (case d2i rValue of
           None \<Rightarrow> None
         | Some r \<Rightarrow>
             let rbuf' = (shift_left R_BUFSIZE rbuf)[R_BUFSIZE - 1 := r]
             in Some (rValue, rbuf', spo2_clamp (spo2_table (median_rInt rbuf') spo2))))"

text \<open>
  \<open>SPO2Task\<close>, once per 8 ms, in source order: filters and smoothers (\<open>spo2_filter\<close>),
  the three window writes (\<open>spo2_store\<close>), on wrap the cool-down test with its early
  \<open>return\<close>, else the analysis (\<open>spo2_analyse\<close>) and the automatic LED drive adjustment
  (\<open>auto_gain\<close>), then the falling-edge detection with the rate batch (\<open>spo2_detect\<close>)
  and the waveform print. \<open>now\<close> is the timer value as stored into the \<open>int\<close>
  \<open>currentPeak_index\<close>; \<open>wave\<close> is \<open>g_displayMode == WAVE_SPO2\<close>.
\<close>

definition spo2_filter ::
  "spo2_state \<Rightarrow> ((real \<times> real) \<times> (real \<times> real) \<times> spo2_state) option" where
  "spo2_filter s =
     (let (o0r, hr) = spo2_IIRHighpass (real_of_int (SPO2_Wave_data_RED s)) (IIRHighpass_win_RED s);
          (o0i, hi) = spo2_IIRHighpass (real_of_int (SPO2_Wave_data_IR s)) (IIRHighpass_win_IR s);
          (o1r, lr) = spo2_IIRLowpass o0r (IIRLowpass_win_RED s);
          (o1i, li) = spo2_IIRLowpass o0i (IIRLowpass_win_IR s)
      in (case SmoothingFilter SMOOTH_LEN o1r (smooth_RED s) of
            None \<Rightarrow> None
          | Some (o2r, sr) \<Rightarrow>
              (case SmoothingFilter SMOOTH_LEN o1i (smooth_IR s) of
                 None \<Rightarrow> None
               | Some (o2i, si) \<Rightarrow>
                   Some ((o0r, o0i), (o2r, o2i),
                         s\<lparr>IIRHighpass_win_RED := hr, IIRHighpass_win_IR := hi,
                           IIRLowpass_win_RED := lr, IIRLowpass_win_IR := li,
                           smooth_RED := sr, smooth_IR := si\<rparr>))))"

definition spo2_store :: "real \<times> real \<Rightarrow> spo2_state \<Rightarrow> spo2_state" where
  "spo2_store output2 s =
     s\<lparr>arr_SPO2_Wave_RED := (arr_SPO2_Wave_RED s)[SPO2_Wave_index s := fst output2],
       arr_SPO2_Wave_IR := (arr_SPO2_Wave_IR s)[SPO2_Wave_index s := snd output2],
       arr_SPO2_Wave_Rate := (arr_SPO2_Wave_Rate s)[SPO2_Wave_index s := snd output2],
       SPO2_Wave_index := SPO2_Wave_index s + 1\<rparr>"

definition spo2_analyse :: "spo2_state \<Rightarrow> spo2_state option" where
  "spo2_analyse s =
     (case Analyze_SPO2Wave (arr_SPO2_Wave_RED s) (arr_SPO2_Wave_IR s)
             (arr_SPO2_Wave_Rate s) SP_WAVE_LEN of
        (ppRed, ppIR, thr) \<Rightarrow>
          (case calSpO2 ppRed ppIR (rValue_buf s) (value_SPO2 s) of
             None \<Rightarrow> None
           | Some (rValue, rbuf, spo2) \<Rightarrow>
               Some (s\<lparr>peak2peak_RED := ppRed, peak2peak_IR := ppIR,
                       spo2_peakThreshold := thr, value_R := rValue,
                       rValue_buf := rbuf, value_SPO2 := spo2\<rparr>)))"

definition auto_gain :: "spo2_state \<Rightarrow> out list \<times> spo2_state" where
  "auto_gain s =
     (if peak2peak_RED s < 20 \<and> s_DACdata s < RED_INTENSITY_MAX then
        (let d = s_DACdata s + RED_INTENSITY_STEP;
             d' = (if d > RED_INTENSITY_MAX then RED_INTENSITY_MAX else d)
         in ([AdjustDAC d'], s\<lparr>s_DACdata := d', adjust_wait_cnt := ADJUST_STABLE_DELAY\<rparr>))
      else if peak2peak_RED s > 80 \<and> s_DACdata s > RED_INTENSITY_MIN then
        (let d = s_DACdata s - RED_INTENSITY_STEP;
             d' = (if d < RED_INTENSITY_MIN then RED_INTENSITY_MIN else d)
         in ([AdjustDAC d'], s\<lparr>s_DACdata := d', adjust_wait_cnt := ADJUST_STABLE_DELAY\<rparr>))
      else ([], s))"

definition spo2_crossing :: "spo2_state \<Rightarrow> bool" where
  "spo2_crossing s \<longleftrightarrow>
     SPO2_Wave_index s > 1 \<and> SPO2_Wave_index s < SP_WAVE_LEN - 1 \<and>
     arr_SPO2_Wave_Rate s ! (SPO2_Wave_index s - 2) - spo2_peakThreshold s \<ge> 0 \<and>
     arr_SPO2_Wave_Rate s ! (SPO2_Wave_index s - 1) - spo2_peakThreshold s \<le> 0"

text \<open>
  The rate batch: \<open>cur_hr\<close> is the rate of the peak just detected. With \<open>hr_cnt \<le> 4\<close> it
  is stored; otherwise the five stored rates are averaged into \<open>heartRate\<close> and the
  counter restarts.
\<close>

definition hr_batch :: "int \<Rightarrow> spo2_state \<Rightarrow> spo2_state" where
  "hr_batch cur_hr s =
     (if hr_cnt s \<le> 4 then
        s\<lparr>hr_buf := (hr_buf s)[hr_cnt s := cur_hr], hr_cnt := hr_cnt s + 1\<rparr>
      else
        (let hr_sum = fold (\<lambda>i acc. acc + hr_buf s ! i) [0..<5] 0
         in s\<lparr>spo2_heartRate := hr_sum sdiv 5, hr_cnt := 0\<rparr>))"

definition spo2_detect :: "int \<Rightarrow> spo2_state \<Rightarrow> spo2_state option" where
  "spo2_detect now s =
     (if spo2_crossing s then
        (case c_sub now (spo2_lastPeak_index s) of
           None \<Rightarrow> None
         | Some d \<Rightarrow>
             (case calRate (real_of_int d) of
                None \<Rightarrow> None
              | Some cur_hr \<Rightarrow>
                  Some (hr_batch cur_hr
                          (s\<lparr>spo2_currentPeak_index := now, spo2_lastPeak_index := now\<rparr>))))
      else Some s)"

definition spo2_print :: "bool \<Rightarrow> real \<times> real \<Rightarrow> out list option" where
  "spo2_print wave output0 =
     (if wave then
        (case (d2i (fst output0), d2i (snd output0)) of
           (Some a, Some b) \<Rightarrow> Some [Printf (''%d, %d'' @ [CHR 0x0D, CHR 0x0A]) [a, b]]
         | _ \<Rightarrow> None)
      else Some [])"

definition spo2_tail ::
  "bool \<Rightarrow> int \<Rightarrow> real \<times> real \<Rightarrow> out list \<Rightarrow> spo2_state \<Rightarrow> (out list \<times> spo2_state) option" where
  "spo2_tail wave now output0 outs s =
     (case spo2_detect now s of
        None \<Rightarrow> None
      | Some s' \<Rightarrow>
          (case spo2_print wave output0 of
             None \<Rightarrow> None
           | Some pr \<Rightarrow> Some (outs @ pr, s')))"

definition SPO2Task :: "bool \<Rightarrow> int \<Rightarrow> spo2_state \<Rightarrow> (out list \<times> spo2_state) option" where
  "SPO2Task wave now s =
     (case spo2_filter s of
        None \<Rightarrow> None
      | Some (output0, output2, s0) \<Rightarrow>
          (let s1 = spo2_store output2 s0
           in if SPO2_Wave_index s1 \<ge> SP_WAVE_LEN then
                (let s2 = s1\<lparr>SPO2_Wave_index := 0\<rparr>
                 in if adjust_wait_cnt s2 > 0 then
                      Some ([], s2\<lparr>adjust_wait_cnt := adjust_wait_cnt s2 - 1\<rparr>)
                    else
                      (case spo2_analyse s2 of
                         None \<Rightarrow> None
                       | Some s3 \<Rightarrow>
                           (case auto_gain s3 of
                              (outs, s4) \<Rightarrow> spo2_tail wave now output0 outs s4)))
              else spo2_tail wave now output0 [] s1))"

text \<open>
  Consecutive \<open>SPO2Task\<close> calls. Each step gives the two samples latched by
  \<open>SPO2_LED_Task\<close> since the previous call and the timer value.
\<close>

fun spo2_run :: "(int \<times> int \<times> int) list \<Rightarrow> spo2_state \<Rightarrow> (out list \<times> spo2_state) option" where
  "spo2_run [] s = Some ([], s)"
| "spo2_run ((red, ir, now) # ins) s =
     (case SPO2Task False now (s\<lparr>SPO2_Wave_data_RED := red, SPO2_Wave_data_IR := ir\<rparr>) of
        None \<Rightarrow> None
      | Some (outs, s') \<Rightarrow>
          (case spo2_run ins s' of
             None \<Rightarrow> None
           | Some (outs', s'') \<Rightarrow> Some (outs @ outs', s'')))"

section \<open>The three channels together\<close>

text \<open>
  Each source file keeps its state in statics of its own, so the monitor's state is the
  three channel states side by side, and an \<open>Init\<close> acts on its own component.
\<close>

record monitor =
  ecg :: ecg_state
  resp :: resp_state
  spo2 :: spo2_state

definition monitor_InitECG :: "monitor \<Rightarrow> monitor" where
  "monitor_InitECG m = m\<lparr>ecg := InitECG (ecg m)\<rparr>"

definition monitor_InitRESP :: "monitor \<Rightarrow> monitor" where
  "monitor_InitRESP m = m\<lparr>resp := InitRESP (resp m)\<rparr>"

definition monitor_InitSPO2 :: "monitor \<Rightarrow> monitor" where
  "monitor_InitSPO2 m = m\<lparr>spo2 := InitSPO2 (spo2 m)\<rparr>"

section \<open>Observations used in the statements\<close>

text \<open>
  A list of outputs shows a number when it holds an \<open>OLEDShowNum\<close> call or a \<open>printf\<close>
  with an argument; it shows the error marker when it writes the string \<open>Err\<close> to the
  display.
\<close>

definition emits_number :: "out list \<Rightarrow> bool" where
  "emits_number outs =
     list_ex (\<lambda>e. case e of OLEDShowNum x y v l z \<Rightarrow> True
                   | Printf fmt args \<Rightarrow> args \<noteq> [] | _ \<Rightarrow> False) outs"

definition emits_error :: "out list \<Rightarrow> bool" where
  "emits_error outs =
     list_ex (\<lambda>e. case e of OLEDShowString x y str \<Rightarrow> str = ''Err'' | _ \<Rightarrow> False) outs"

text \<open>
  A call of \<open>ECGTask\<close> detects a peak when, after the filter chain and the window write,
  the rising-edge test of the source holds.
\<close>

definition ecg_peak_detected :: "u32 \<Rightarrow> ecg_state \<Rightarrow> bool" where
  "ecg_peak_detected inp s =
     (case ecg_filter inp s of
        None \<Rightarrow> False
      | Some (output3, output4, s1) \<Rightarrow> ecg_crossing (ecg_store output4 s1))"

text \<open>
  A monitor state in which the ECG and RESP smoothers have already been filled, used to
  show what the \<open>Init\<close> functions leave as it is.
\<close>

definition monitor_running :: monitor where
  "monitor_running =
     \<lparr>ecg = ecg_start\<lparr>ecg_smooth := \<lparr>sm_i = 3, sm_buf = [5, 6, 7]\<rparr>\<rparr>,
      resp = resp_start\<lparr>resp_smooth := \<lparr>sm_i = 100, sm_buf = replicate 100 9\<rparr>\<rparr>,
      spo2 = spo2_start\<rparr>"

text \<open>
  The value a refresh gives the threshold, from the set \<open>vals\<close> of window entries the
  scan looks at: the running maximum starts at 0 and the running minimum at 4095.
\<close>

definition refreshed_threshold :: "real \<Rightarrow> real set \<Rightarrow> real" where
  "refreshed_threshold k vals =
     (let M = Max (insert 0 vals); m = Min (insert 4095 vals) in M - (M - m) / k)"


text \<open>
  Three channel states just before a wrap, used as concrete inputs. \<open>spo2_spike\<close>: the
  IR and rate-reference windows are zero except for the value 9 at index 0, the RED
  window is zero, the LED drive is 240. \<open>ecg_low\<close>: the window holds - 8 everywhere and
  the smoother ring is full of - 9. \<open>resp_high\<close>: the window holds 8 everywhere.
\<close>

definition spo2_spike :: spo2_state where
  "spo2_spike = spo2_start\<lparr>SPO2_Wave_index := 299,
     arr_SPO2_Wave_IR := 9 # replicate 299 0,
     arr_SPO2_Wave_Rate := 9 # replicate 299 0, s_DACdata := 240\<rparr>"



text \<open>
  The peak-to-peak value \<open>Analyze_SPO2Wave\<close> computes for a window: the scan starts its
  maximum at 0 and its minimum at 4095.
\<close>

definition window_p2p :: "real list \<Rightarrow> real" where
  "window_p2p w = Max (insert 0 (set w)) - Min (insert 4095 (set w))"




text \<open>
  Consecutive \<open>calSpO2\<close> calls on the history and the stored saturation, each with the
  two peak-to-peak values of its analysis cycle.
\<close>

fun calSpO2_run :: "(real \<times> real) list \<Rightarrow> int list \<times> real \<Rightarrow> (int list \<times> real) option" where
  "calSpO2_run [] st = Some st"
| "calSpO2_run ((redPeak, irPeak) # ins) (rbuf, v) =
     (case calSpO2 redPeak irPeak rbuf v of
        None \<Rightarrow> None
      | Some (rValue, rbuf', v') \<Rightarrow> calSpO2_run ins (rbuf', v'))"

text \<open>
  A SpO2 state whose history and stored saturation come from program start by
  \<open>calSpO2\<close> calls.
\<close>

definition sat_history :: "spo2_state \<Rightarrow> bool" where
  "sat_history s \<longleftrightarrow>
     (\<exists>ins. calSpO2_run ins (replicate R_BUFSIZE 0, 0) = Some (rValue_buf s, value_SPO2 s))"

text \<open>
  What the rate batch holds: the displayed heart rate, the fill counter and the five
  stored rates.
\<close>

definition rate_state :: "spo2_state \<Rightarrow> int \<times> nat \<times> int list" where
  "rate_state s = (spo2_heartRate s, hr_cnt s, hr_buf s)"

text \<open>
  A flat SpO2 channel: delay lines and smoother rings hold zeros, the rate window is zero
  below the write index, and the threshold is zero. With zero samples every call past
  the first is then a falling crossing.
\<close>

definition spo2_flat :: "spo2_state \<Rightarrow> bool" where
  "spo2_flat s \<longleftrightarrow>
     IIRHighpass_win_RED s = (0, 0, 0) \<and> IIRHighpass_win_IR s = (0, 0, 0) \<and>
     IIRLowpass_win_RED s = (0, 0, 0) \<and> IIRLowpass_win_IR s = (0, 0, 0) \<and>
     sm_buf (smooth_RED s) = replicate SMOOTH_LEN 0 \<and>
     sm_buf (smooth_IR s) = replicate SMOOTH_LEN 0 \<and>
     length (arr_SPO2_Wave_Rate s) = SP_WAVE_LEN \<and>
     (\<forall>j < SPO2_Wave_index s. arr_SPO2_Wave_Rate s ! j = 0) \<and>
     spo2_peakThreshold s = 0"

text \<open>
  The last \<open>W\<close> samples up to and including sample \<open>n\<close> (counted from 0), and the
  contents of the ring of a smoother of window \<open>W\<close> after the samples \<open>xs\<close>: the samples
  followed by the untouched zeros while the ring fills, the last \<open>W\<close> samples afterwards.
\<close>

definition last_inputs :: "nat \<Rightarrow> nat \<Rightarrow> real list \<Rightarrow> real list" where
  "last_inputs W n xs = take W (drop (n + 1 - W) xs)"

definition ring_after :: "nat \<Rightarrow> real list \<Rightarrow> real list" where
  "ring_after W xs =
     (if length xs \<le> W then xs @ replicate (W - length xs) 0 else drop (length xs - W) xs)"


section \<open>Display routines\<close>

text \<open>
  Claim C9. With a valid lead status (ECG: the lead-off input does not read 1; RESP: the
  stored peak-to-peak value lies in [600, 3000]) the display routine shows the stored
  rate as a number exactly when the rate lies in the plausibility band (ECG [20, 250],
  RESP [5, 100]) and shows the error marker exactly when it does not; the number shown
  is the stored rate; and the call leaves the stored rate as it was, whatever the lead
  status.
\<close>

theorem display_plausibility_band:
  "(lead \<noteq> 1 \<longrightarrow>
      (emits_number (fst (OLED_ECG lead s)) \<longleftrightarrow>
         20 \<le> ecg_heartRate s \<and> ecg_heartRate s \<le> 250) \<and>
      (emits_error (fst (OLED_ECG lead s)) \<longleftrightarrow>
         \<not> (20 \<le> ecg_heartRate s \<and> ecg_heartRate s \<le> 250)) \<and>
      (20 \<le> ecg_heartRate s \<and> ecg_heartRate s \<le> 250 \<longrightarrow>
         OLEDShowNum 32 0 (ecg_heartRate s) 3 16 \<in> set (fst (OLED_ECG lead s)) \<and>
         Printf (status_line ''1,%d'') [ecg_heartRate s] \<in> set (fst (OLED_ECG lead s)))) \<and>
   ecg_heartRate (snd (OLED_ECG lead s)) = ecg_heartRate s \<and>
   (600 \<le> s_peak2peak r \<and> s_peak2peak r \<le> 3000 \<longrightarrow>
      (emits_number (fst (OLED_RESP r)) \<longleftrightarrow> 5 \<le> breathRate r \<and> breathRate r \<le> 100) \<and>
      (emits_error (fst (OLED_RESP r)) \<longleftrightarrow> \<not> (5 \<le> breathRate r \<and> breathRate r \<le> 100)) \<and>
      (5 \<le> breathRate r \<and> breathRate r \<le> 100 \<longrightarrow>
         OLEDShowNum 32 32 (breathRate r) 3 16 \<in> set (fst (OLED_RESP r)) \<and>
         Printf (status_line ''2,%d'') [breathRate r] \<in> set (fst (OLED_RESP r)))) \<and>
   breathRate (snd (OLED_RESP r)) = breathRate r"
  by (simp add: OLED_ECG_def OLED_RESP_def emits_error_def emits_number_def Let_def)

theorem display_plausibility_band_witness:
  "(0 :: u8) \<noteq> 1 \<and>
   emits_number (fst (OLED_ECG 0 (ecg_start\<lparr>ecg_heartRate := 72\<rparr>))) \<and>
   \<not> emits_error (fst (OLED_ECG 0 (ecg_start\<lparr>ecg_heartRate := 72\<rparr>))) \<and>
   emits_error (fst (OLED_ECG 0 (ecg_start\<lparr>ecg_heartRate := 300\<rparr>))) \<and>
   \<not> emits_number (fst (OLED_ECG 0 (ecg_start\<lparr>ecg_heartRate := 300\<rparr>))) \<and>
   emits_number (fst (OLED_RESP (resp_start\<lparr>breathRate := 16, s_peak2peak := 1000\<rparr>))) \<and>
   emits_error (fst (OLED_RESP (resp_start\<lparr>breathRate := 4, s_peak2peak := 1000\<rparr>)))"
  using display_plausibility_band [of 0 "ecg_start\<lparr>ecg_heartRate := 72\<rparr>"
          "resp_start\<lparr>breathRate := 16, s_peak2peak := 1000\<rparr>"]
        display_plausibility_band [of 0 "ecg_start\<lparr>ecg_heartRate := 300\<rparr>"
          "resp_start\<lparr>breathRate := 4, s_peak2peak := 1000\<rparr>"]
  by simp

text \<open>
  Claim C10. In \<open>OLED_ECG\<close> the lead-off test comes first: when the lead-off input reads
  1 (electrode off) the routine shows the error marker and no number, whatever the
  stored heart rate is, also when it lies in [20, 250].
\<close>

theorem OLED_ECG_lead_off_first:
  "lead = 1 \<Longrightarrow>
     emits_error (fst (OLED_ECG lead s)) \<and>
     \<not> emits_number (fst (OLED_ECG lead s)) \<and>
     Printf (status_line ''1,Err'') [] \<in> set (fst (OLED_ECG lead s)) \<and>
     OLEDShowNum 32 0 (ecg_heartRate s) 3 16 \<notin> set (fst (OLED_ECG lead s))"
  by (simp add: OLED_ECG_def emits_error_def emits_number_def Let_def)

theorem OLED_ECG_lead_off_first_witness:
  "20 \<le> ecg_heartRate (ecg_start\<lparr>ecg_heartRate := 72\<rparr>) \<and>
   ecg_heartRate (ecg_start\<lparr>ecg_heartRate := 72\<rparr>) \<le> 250 \<and>
   emits_error (fst (OLED_ECG 1 (ecg_start\<lparr>ecg_heartRate := 72\<rparr>))) \<and>
   \<not> emits_number (fst (OLED_ECG 1 (ecg_start\<lparr>ecg_heartRate := 72\<rparr>)))"
  using OLED_ECG_lead_off_first [of 1 "ecg_start\<lparr>ecg_heartRate := 72\<rparr>"]
  by simp

section \<open>Rate from the interval between two peaks\<close>

lemma trunc0_rate: "0 < n \<Longrightarrow> trunc0 (60000 / real n) = 60000 div int n"
proof -
  assume n: "0 < n"
  have "\<lfloor>real_of_int 60000 / real_of_int (int n)\<rfloor> = 60000 div int n"
    by (rule floor_divide_of_int_eq)
  moreover have "0 \<le> 60000 / real n" by simp
  ultimately show ?thesis by (simp add: trunc0_def)
qed

lemma calRate_nat: "0 < n \<Longrightarrow> calRate (real n) = Some (60000 div int n)"
proof -
  assume n: "0 < n"
  have "0 \<le> 60000 div int n" using n by (simp add: pos_imp_zdiv_nonneg_iff)
  moreover have "60000 div int n \<le> 60000"
    using n zdiv_mono2 [of 60000 1 "int n"] by simp
  ultimately have "int_range (60000 div int n)" by (simp add: int_range_def)
  with n show ?thesis by (simp add: calRate_def d2i_def trunc0_rate)
qed

lemma calRate_diff:
  assumes "a < b"
  shows "calRate (real b - real a) = Some (60000 div (int b - int a))"
proof -
  have "calRate (real (b - a)) = Some (60000 div int (b - a))"
    using assms by (intro calRate_nat) simp
  then show ?thesis using assms by (simp add: of_nat_diff)
qed

lemma calRate_zero: "calRate 0 = None"
  by (simp add: calRate_def)

lemma ecg_filter_last:
  "ecg_filter inp s = Some (o3, o4, s1) \<Longrightarrow> ecg_lastPeak_index s1 = ecg_lastPeak_index s"
  by (auto simp: ecg_filter_def Let_def split: prod.splits option.splits)

lemma ecg_store_last: "ecg_lastPeak_index (ecg_store o4 s) = ecg_lastPeak_index s"
  by (simp add: ecg_store_def Let_def)

lemma ecg_detect_rate:
  assumes "ecg_crossing s" "ecg_lastPeak_index s < now"
  shows "ecg_detect now s = Some (s\<lparr>ecg_currentPeak_index := now,
            ecg_heartRate := 60000 div (int (unat now) - int (unat (ecg_lastPeak_index s))),
            ecg_lastPeak_index := now\<rparr>)"
proof -
  have le: "ecg_lastPeak_index s \<le> now" using assms(2) by simp
  have lt: "unat (ecg_lastPeak_index s) < unat now"
    using assms(2) by (simp add: word_less_nat_alt)
  have "unat (now - ecg_lastPeak_index s) = unat now - unat (ecg_lastPeak_index s)"
    using le by (rule unat_sub)
  then show ?thesis
    using assms(1) lt calRate_diff [OF lt] by (simp add: ecg_detect_def)
qed

lemma ecg_detect_zero:
  assumes "ecg_crossing s" "ecg_lastPeak_index s = now"
  shows "ecg_detect now s = None"
  using assms by (simp add: ecg_detect_def calRate_zero)

text \<open>
  The same for RESP.c, whose peak times are \<open>double\<close> variables holding timer values.
\<close>

lemma resp_detect_rate:
  assumes "resp_crossing s" "resp_lastPeak_index s = real t1" "t1 < t2"
  shows "resp_detect (real t2) s = Some (s\<lparr>resp_currentPeak_index := real t2,
            breathRate := 60000 div (int t2 - int t1), resp_lastPeak_index := real t2\<rparr>)"
  using assms calRate_diff [OF assms(3)] by (simp add: resp_detect_def)

text \<open>
  Claim C8. When a call of \<open>ECGTask\<close> detects a peak and the previous peak time \<open>t1\<close> is
  before the timer value \<open>t2\<close> of this call, the call has defined behaviour and the heart
  rate it stores is \<open>60000 / (t2 - t1)\<close> truncated toward zero, which is the integer
  quotient \<open>60000 div (t2 - t1)\<close>; the new peak time is stored as the last one. When
  both times are equal the division is by zero and the call has no defined result.
\<close>

theorem rate_from_peak_interval:
  assumes "ecg_peak_detected inp s"
  shows "(ecg_lastPeak_index s < now \<longrightarrow>
            ECGTask False now inp s \<noteq> None \<and>
            (\<forall>wave outs s'. ECGTask wave now inp s = Some (outs, s') \<longrightarrow>
               ecg_heartRate s' =
                 trunc0 (60000 / (real (unat now) - real (unat (ecg_lastPeak_index s)))) \<and>
               ecg_heartRate s' =
                 60000 div (int (unat now) - int (unat (ecg_lastPeak_index s))) \<and>
               ecg_lastPeak_index s' = now)) \<and>
         (ecg_lastPeak_index s = now \<longrightarrow> (\<forall>wave. ECGTask wave now inp s = None))"
proof -
  from assms obtain o3 o4 s1 where f: "ecg_filter inp s = Some (o3, o4, s1)"
      and c: "ecg_crossing (ecg_store o4 s1)"
    by (auto simp: ecg_peak_detected_def split: option.splits)
  have l: "ecg_lastPeak_index (ecg_store o4 s1) = ecg_lastPeak_index s"
    using f by (simp add: ecg_store_last ecg_filter_last)
  show ?thesis
  proof (intro conjI impI allI)
    assume lt: "ecg_lastPeak_index s < now"
    show "ECGTask False now inp s \<noteq> None"
      using f c l lt ecg_detect_rate [of "ecg_store o4 s1" now]
      by (simp add: ECGTask_def ecg_print_def)
  next
    fix wave outs s'
    assume lt: "ecg_lastPeak_index s < now"
      and t: "ECGTask wave now inp s = Some (outs, s')"
    have d: "ecg_heartRate s' = 60000 div (int (unat now) - int (unat (ecg_lastPeak_index s)))"
      using f c l lt t ecg_detect_rate [of "ecg_store o4 s1" now]
      by (auto simp: ECGTask_def split: option.splits)
    show "ecg_heartRate s' = 60000 div (int (unat now) - int (unat (ecg_lastPeak_index s)))"
      by (rule d)
    have lt': "unat (ecg_lastPeak_index s) < unat now"
      using lt by (simp add: word_less_nat_alt)
    have "trunc0 (60000 / real (unat now - unat (ecg_lastPeak_index s))) =
            60000 div int (unat now - unat (ecg_lastPeak_index s))"
      using lt' by (intro trunc0_rate) simp
    then show "ecg_heartRate s' =
        trunc0 (60000 / (real (unat now) - real (unat (ecg_lastPeak_index s))))"
      using d lt' by (simp add: of_nat_diff)
    show "ecg_lastPeak_index s' = now"
      using f c l lt t ecg_detect_rate [of "ecg_store o4 s1" now]
      by (auto simp: ECGTask_def split: option.splits)
  next
    fix wave
    assume "ecg_lastPeak_index s = now"
    then show "ECGTask wave now inp s = None"
      using f c l ecg_detect_zero [of "ecg_store o4 s1" now]
      by (simp add: ECGTask_def)
  qed
qed

lemma ecg_peak_detected_example:
  "ecg_peak_detected 0 (ecg_start\<lparr>ECG_Wave_index := 5, ecg_lastPeak_index := 1000\<rparr>)"
  by (simp add: ecg_peak_detected_def ecg_filter_def ecg_start_def IIRNotch_def
      ecg_IIRHighpass_def ecg_IIRLowpass_def biquad_def IIRNotch_a_def IIRNotch_b_def
      ecg_IIRHighpass_a_def ecg_IIRHighpass_b_def ecg_IIRLowpass_a_def
      ecg_IIRLowpass_b_def SmoothingFilter_def smoother_init_def ecg_store_def
      ecg_crossing_def Let_def)

theorem rate_from_peak_interval_witness:
  "ecg_peak_detected 0 (ecg_start\<lparr>ECG_Wave_index := 5, ecg_lastPeak_index := 1000\<rparr>) \<and>
   ecg_lastPeak_index (ecg_start\<lparr>ECG_Wave_index := 5, ecg_lastPeak_index := 1000\<rparr>) < 1800 \<and>
   map_option (ecg_heartRate \<circ> snd)
     (ECGTask False 1800 0 (ecg_start\<lparr>ECG_Wave_index := 5, ecg_lastPeak_index := 1000\<rparr>))
     = Some 75 \<and>
   ECGTask False 1000 0 (ecg_start\<lparr>ECG_Wave_index := 5, ecg_lastPeak_index := 1000\<rparr>)
     = None"
proof -
  let ?s = "ecg_start\<lparr>ECG_Wave_index := 5, ecg_lastPeak_index := 1000\<rparr>"
  have lt: "ecg_lastPeak_index ?s < 1800" by simp
  note R = rate_from_peak_interval [OF ecg_peak_detected_example, of 1800]
  note P = R [THEN conjunct1, THEN mp, OF lt]
  from P [THEN conjunct1] obtain outs s' where t: "ECGTask False 1800 0 ?s = Some (outs, s')"
    by (cases "ECGTask False 1800 0 ?s") auto
  from P [THEN conjunct2, THEN spec, THEN spec, THEN spec, THEN mp, OF t]
  have r: "ecg_heartRate s' =
      60000 div (int (unat (1800 :: u32)) - int (unat (ecg_lastPeak_index ?s)))"
    by (rule conjunct2 [THEN conjunct1])
  have r': "ecg_heartRate s' = 75" using r by simp
  have n: "ECGTask False 1000 0 ?s = None"
    using rate_from_peak_interval [OF ecg_peak_detected_example, of 1000] by simp
  show ?thesis
    using ecg_peak_detected_example lt n by (simp add: t r')
qed

section \<open>Initialisation\<close>

text \<open>
  Claim C3, as stated, fails: the ring and the fill counter of a smoother are statics
  local to \<open>SmoothingFilter\<close>, and no \<open>Init\<close> writes them. After \<open>InitECG\<close> and
  \<open>InitRESP\<close> on a running monitor both smoothers are still filled.
\<close>

theorem Init_keeps_smoother_counterexample:
  "sm_i (ecg_smooth (ecg (monitor_InitECG monitor_running))) = 3 \<and>
   sm_buf (ecg_smooth (ecg (monitor_InitECG monitor_running))) = [5, 6, 7] \<and>
   sm_i (resp_smooth (resp (monitor_InitRESP monitor_running))) = 100 \<and>
   sm_buf (resp_smooth (resp (monitor_InitRESP monitor_running))) = replicate 100 9"
  by (simp add: monitor_running_def monitor_InitECG_def monitor_InitRESP_def
      InitECG_def InitRESP_def)

text \<open>
  Claim C3, amended. \<open>InitECG\<close> and \<open>InitRESP\<close> zero the channel's filter delay lines,
  analysis window, write index, threshold, peak times and rate (RESP: also the stored
  peak-to-peak value) and leave the smoother ring and fill counter as they were;
  \<open>InitSPO2\<close> zeroes the two low-pass delay lines and sets the LED drive to 240; no
  \<open>Init\<close> changes the state of another channel.
\<close>

theorem Init_resets_own_channel:
  "ecg_IIRNotch_win (ecg (monitor_InitECG m)) = (0, 0, 0) \<and>
   ecg_IIRLowpass_win (ecg (monitor_InitECG m)) = (0, 0, 0) \<and>
   ecg_IIRHighpass_win (ecg (monitor_InitECG m)) = (0, 0, 0) \<and>
   arr_ECG_Wave (ecg (monitor_InitECG m)) = replicate HR_WAVE_LEN 0 \<and>
   ECG_Wave_index (ecg (monitor_InitECG m)) = 0 \<and>
   ecg_peakThreshold (ecg (monitor_InitECG m)) = 0 \<and>
   ecg_lastPeak_index (ecg (monitor_InitECG m)) = 0 \<and>
   ecg_currentPeak_index (ecg (monitor_InitECG m)) = 0 \<and>
   ecg_heartRate (ecg (monitor_InitECG m)) = 0 \<and>
   ecg_smooth (ecg (monitor_InitECG m)) = ecg_smooth (ecg m) \<and>
   resp (monitor_InitECG m) = resp m \<and>
   spo2 (monitor_InitECG m) = spo2 m \<and>
   resp_IIRNotch_win (resp (monitor_InitRESP m)) = (0, 0, 0) \<and>
   resp_IIRLowpass_win (resp (monitor_InitRESP m)) = (0, 0, 0) \<and>
   arr_BR_Wave (resp (monitor_InitRESP m)) = replicate BR_WAVE_LEN 0 \<and>
   BR_Wave_index (resp (monitor_InitRESP m)) = 0 \<and>
   resp_peakThreshold (resp (monitor_InitRESP m)) = 0 \<and>
   resp_lastPeak_index (resp (monitor_InitRESP m)) = 0 \<and>
   resp_currentPeak_index (resp (monitor_InitRESP m)) = 0 \<and>
   breathRate (resp (monitor_InitRESP m)) = 0 \<and>
   s_peak2peak (resp (monitor_InitRESP m)) = 0 \<and>
   resp_smooth (resp (monitor_InitRESP m)) = resp_smooth (resp m) \<and>
   ecg (monitor_InitRESP m) = ecg m \<and>
   spo2 (monitor_InitRESP m) = spo2 m \<and>
   IIRLowpass_win_RED (spo2 (monitor_InitSPO2 m)) = (0, 0, 0) \<and>
   IIRLowpass_win_IR (spo2 (monitor_InitSPO2 m)) = (0, 0, 0) \<and>
   s_DACdata (spo2 (monitor_InitSPO2 m)) = 240 \<and>
   ecg (monitor_InitSPO2 m) = ecg m \<and>
   resp (monitor_InitSPO2 m) = resp m"
  by (simp add: monitor_InitECG_def monitor_InitRESP_def monitor_InitSPO2_def
      InitECG_def InitRESP_def InitSPO2_def)

section \<open>Threshold refresh\<close>

lemma scan_step_max_min: "scan_step w i (mx, mn) = (max mx (w ! i), min mn (w ! i))"
  by (auto simp: scan_step_def max_def min_def)

lemma Max_insert_max: "finite S \<Longrightarrow> Max (insert (max a b) S) = Max (insert a (insert b S))"
  by (cases "S = {}") (simp_all add: max.assoc)

lemma Min_insert_min: "finite S \<Longrightarrow> Min (insert (min a b) S) = Min (insert a (insert b S))"
  by (cases "S = {}") (simp_all add: min.assoc)

lemma fold_scan_step:
  "fold (scan_step w) js (mx, mn) =
     (Max (insert mx ((!) w ` set js)), Min (insert mn ((!) w ` set js)))"
proof (induction js arbitrary: mx mn)
  case Nil
  show ?case by simp
next
  case (Cons j js)
  have "fold (scan_step w) (j # js) (mx, mn) =
          fold (scan_step w) js (max mx (w ! j), min mn (w ! j))"
    by (simp add: scan_step_max_min)
  also have "\<dots> = (Max (insert (max mx (w ! j)) ((!) w ` set js)),
                    Min (insert (min mn (w ! j)) ((!) w ` set js)))"
    by (rule Cons.IH)
  finally show ?case
    by (simp add: Max_insert_max Min_insert_min)
qed

lemma nth_image_all: "(!) w ` set [0..<length w] = set w"
  using nth_image [of "length w" w] by simp




lemma fold_triple:
  "fold (\<lambda>i (m1, m2, m3). (f1 i m1, f2 i m2, f3 i m3)) js (a, b, c) =
     (fold f1 js a, fold f2 js b, fold f3 js c)"
  by (induction js arbitrary: a b c) simp_all

lemma Analyze_SPO2Wave_eq:
  "length w1 = n \<Longrightarrow> length w2 = n \<Longrightarrow> length w3 = n \<Longrightarrow>
     Analyze_SPO2Wave w1 w2 w3 n =
       (Max (insert 0 (set w1)) - Min (insert 4095 (set w1)),
        Max (insert 0 (set w2)) - Min (insert 4095 (set w2)),
        refreshed_threshold 3 (set w3))"
proof -
  assume l: "length w1 = n" "length w2 = n" "length w3 = n"
  have "(!) w1 ` set [0..<n] = set w1"
    using nth_image_all [of w1] by (simp only: l)
  moreover have "(!) w2 ` set [0..<n] = set w2"
    using nth_image_all [of w2] by (simp only: l)
  moreover have "(!) w3 ` set [0..<n] = set w3"
    using nth_image_all [of w3] by (simp only: l)
  ultimately show ?thesis
    by (simp add: Analyze_SPO2Wave_def fold_triple fold_scan_step refreshed_threshold_def
        Let_def del: set_upt)
qed








lemma spo2_filter_frame:
  assumes "spo2_filter s = Some (o0, o2, s0)"
  shows "SPO2_Wave_data_RED s0 = SPO2_Wave_data_RED s"
    and "SPO2_Wave_data_IR s0 = SPO2_Wave_data_IR s"
    and "arr_SPO2_Wave_Rate s0 = arr_SPO2_Wave_Rate s"
    and "SPO2_Wave_index s0 = SPO2_Wave_index s"
    and "spo2_peakThreshold s0 = spo2_peakThreshold s"
    and "spo2_lastPeak_index s0 = spo2_lastPeak_index s"
    and "spo2_currentPeak_index s0 = spo2_currentPeak_index s"
    and "spo2_heartRate s0 = spo2_heartRate s"
    and "hr_buf s0 = hr_buf s"
    and "hr_cnt s0 = hr_cnt s"
    and "arr_SPO2_Wave_RED s0 = arr_SPO2_Wave_RED s"
    and "arr_SPO2_Wave_IR s0 = arr_SPO2_Wave_IR s"
    and "peak2peak_RED s0 = peak2peak_RED s"
    and "peak2peak_IR s0 = peak2peak_IR s"
    and "value_R s0 = value_R s"
    and "value_SPO2 s0 = value_SPO2 s"
    and "rValue_buf s0 = rValue_buf s"
    and "s_DACdata s0 = s_DACdata s"
    and "adjust_wait_cnt s0 = adjust_wait_cnt s"
    and "led_phase s0 = led_phase s"
    and "RED_LED s0 = RED_LED s"
    and "IR_LED s0 = IR_LED s"
  using assms by (auto simp: spo2_filter_def Let_def split: prod.splits option.splits)

lemma spo2_store_frame:
  shows "SPO2_Wave_data_RED (spo2_store o2 s) = SPO2_Wave_data_RED s"
    and "SPO2_Wave_data_IR (spo2_store o2 s) = SPO2_Wave_data_IR s"
    and "IIRLowpass_win_RED (spo2_store o2 s) = IIRLowpass_win_RED s"
    and "IIRLowpass_win_IR (spo2_store o2 s) = IIRLowpass_win_IR s"
    and "IIRHighpass_win_RED (spo2_store o2 s) = IIRHighpass_win_RED s"
    and "IIRHighpass_win_IR (spo2_store o2 s) = IIRHighpass_win_IR s"
    and "smooth_RED (spo2_store o2 s) = smooth_RED s"
    and "smooth_IR (spo2_store o2 s) = smooth_IR s"
    and "spo2_peakThreshold (spo2_store o2 s) = spo2_peakThreshold s"
    and "spo2_lastPeak_index (spo2_store o2 s) = spo2_lastPeak_index s"
    and "spo2_currentPeak_index (spo2_store o2 s) = spo2_currentPeak_index s"
    and "spo2_heartRate (spo2_store o2 s) = spo2_heartRate s"
    and "hr_buf (spo2_store o2 s) = hr_buf s"
    and "hr_cnt (spo2_store o2 s) = hr_cnt s"
    and "peak2peak_RED (spo2_store o2 s) = peak2peak_RED s"
    and "peak2peak_IR (spo2_store o2 s) = peak2peak_IR s"
    and "value_R (spo2_store o2 s) = value_R s"
    and "value_SPO2 (spo2_store o2 s) = value_SPO2 s"
    and "rValue_buf (spo2_store o2 s) = rValue_buf s"
    and "s_DACdata (spo2_store o2 s) = s_DACdata s"
    and "adjust_wait_cnt (spo2_store o2 s) = adjust_wait_cnt s"
    and "led_phase (spo2_store o2 s) = led_phase s"
    and "RED_LED (spo2_store o2 s) = RED_LED s"
    and "IR_LED (spo2_store o2 s) = IR_LED s"
  by (simp_all add: spo2_store_def)

lemma spo2_analyse_frame:
  assumes "spo2_analyse s = Some s'"
  shows "SPO2_Wave_data_RED s' = SPO2_Wave_data_RED s"
    and "SPO2_Wave_data_IR s' = SPO2_Wave_data_IR s"
    and "IIRLowpass_win_RED s' = IIRLowpass_win_RED s"
    and "IIRLowpass_win_IR s' = IIRLowpass_win_IR s"
    and "IIRHighpass_win_RED s' = IIRHighpass_win_RED s"
    and "IIRHighpass_win_IR s' = IIRHighpass_win_IR s"
    and "smooth_RED s' = smooth_RED s"
    and "smooth_IR s' = smooth_IR s"
    and "arr_SPO2_Wave_Rate s' = arr_SPO2_Wave_Rate s"
    and "SPO2_Wave_index s' = SPO2_Wave_index s"
    and "spo2_lastPeak_index s' = spo2_lastPeak_index s"
    and "spo2_currentPeak_index s' = spo2_currentPeak_index s"
    and "spo2_heartRate s' = spo2_heartRate s"
    and "hr_buf s' = hr_buf s"
    and "hr_cnt s' = hr_cnt s"
    and "arr_SPO2_Wave_RED s' = arr_SPO2_Wave_RED s"
    and "arr_SPO2_Wave_IR s' = arr_SPO2_Wave_IR s"
    and "s_DACdata s' = s_DACdata s"
    and "adjust_wait_cnt s' = adjust_wait_cnt s"
    and "led_phase s' = led_phase s"
    and "RED_LED s' = RED_LED s"
    and "IR_LED s' = IR_LED s"
  using assms by (auto simp: spo2_analyse_def split: prod.splits option.splits)

lemma auto_gain_frame:
  shows "SPO2_Wave_data_RED (snd (auto_gain s)) = SPO2_Wave_data_RED s"
    and "SPO2_Wave_data_IR (snd (auto_gain s)) = SPO2_Wave_data_IR s"
    and "IIRLowpass_win_RED (snd (auto_gain s)) = IIRLowpass_win_RED s"
    and "IIRLowpass_win_IR (snd (auto_gain s)) = IIRLowpass_win_IR s"
    and "IIRHighpass_win_RED (snd (auto_gain s)) = IIRHighpass_win_RED s"
    and "IIRHighpass_win_IR (snd (auto_gain s)) = IIRHighpass_win_IR s"
    and "smooth_RED (snd (auto_gain s)) = smooth_RED s"
    and "smooth_IR (snd (auto_gain s)) = smooth_IR s"
    and "arr_SPO2_Wave_Rate (snd (auto_gain s)) = arr_SPO2_Wave_Rate s"
    and "SPO2_Wave_index (snd (auto_gain s)) = SPO2_Wave_index s"
    and "spo2_peakThreshold (snd (auto_gain s)) = spo2_peakThreshold s"
    and "spo2_lastPeak_index (snd (auto_gain s)) = spo2_lastPeak_index s"
    and "spo2_currentPeak_index (snd (auto_gain s)) = spo2_currentPeak_index s"
    and "spo2_heartRate (snd (auto_gain s)) = spo2_heartRate s"
    and "hr_buf (snd (auto_gain s)) = hr_buf s"
    and "hr_cnt (snd (auto_gain s)) = hr_cnt s"
    and "arr_SPO2_Wave_RED (snd (auto_gain s)) = arr_SPO2_Wave_RED s"
    and "arr_SPO2_Wave_IR (snd (auto_gain s)) = arr_SPO2_Wave_IR s"
    and "peak2peak_RED (snd (auto_gain s)) = peak2peak_RED s"
    and "peak2peak_IR (snd (auto_gain s)) = peak2peak_IR s"
    and "value_R (snd (auto_gain s)) = value_R s"
    and "value_SPO2 (snd (auto_gain s)) = value_SPO2 s"
    and "rValue_buf (snd (auto_gain s)) = rValue_buf s"
    and "led_phase (snd (auto_gain s)) = led_phase s"
    and "RED_LED (snd (auto_gain s)) = RED_LED s"
    and "IR_LED (snd (auto_gain s)) = IR_LED s"
  by (simp_all add: auto_gain_def Let_def)

lemma spo2_detect_frame:
  assumes "spo2_detect now s = Some s'"
  shows "SPO2_Wave_data_RED s' = SPO2_Wave_data_RED s"
    and "SPO2_Wave_data_IR s' = SPO2_Wave_data_IR s"
    and "IIRLowpass_win_RED s' = IIRLowpass_win_RED s"
    and "IIRLowpass_win_IR s' = IIRLowpass_win_IR s"
    and "IIRHighpass_win_RED s' = IIRHighpass_win_RED s"
    and "IIRHighpass_win_IR s' = IIRHighpass_win_IR s"
    and "smooth_RED s' = smooth_RED s"
    and "smooth_IR s' = smooth_IR s"
    and "arr_SPO2_Wave_Rate s' = arr_SPO2_Wave_Rate s"
    and "SPO2_Wave_index s' = SPO2_Wave_index s"
    and "spo2_peakThreshold s' = spo2_peakThreshold s"
    and "arr_SPO2_Wave_RED s' = arr_SPO2_Wave_RED s"
    and "arr_SPO2_Wave_IR s' = arr_SPO2_Wave_IR s"
    and "peak2peak_RED s' = peak2peak_RED s"
    and "peak2peak_IR s' = peak2peak_IR s"
    and "value_R s' = value_R s"
    and "value_SPO2 s' = value_SPO2 s"
    and "rValue_buf s' = rValue_buf s"
    and "s_DACdata s' = s_DACdata s"
    and "adjust_wait_cnt s' = adjust_wait_cnt s"
    and "led_phase s' = led_phase s"
    and "RED_LED s' = RED_LED s"
    and "IR_LED s' = IR_LED s"
  using assms by (auto simp: spo2_detect_def hr_batch_def Let_def split: if_splits option.splits)

lemma spo2_detect_idle:
  "SPO2_Wave_index s = 0 \<Longrightarrow> spo2_detect now s = Some s"
  by (simp add: spo2_detect_def spo2_crossing_def)

lemma spo2_tail_idle:
  "SPO2_Wave_index s = 0 \<Longrightarrow>
     spo2_tail wave now o0 outs s =
       (case spo2_print wave o0 of None \<Rightarrow> None | Some pr \<Rightarrow> Some (outs @ pr, s))"
  by (simp add: spo2_tail_def spo2_detect_idle)

lemma SPO2Task_cooldown:
  assumes f: "spo2_filter s = Some (o0, o2, s0)"
    and w: "SPO2_Wave_index s = SP_WAVE_LEN - 1"
    and c: "adjust_wait_cnt s > 0"
  shows "SPO2Task wave now s =
           Some ([], (spo2_store o2 s0)\<lparr>SPO2_Wave_index := 0,
                       adjust_wait_cnt := adjust_wait_cnt s - 1\<rparr>)"
proof -
  note fr = spo2_filter_frame [OF f]
  have "SPO2_Wave_index (spo2_store o2 s0) = SP_WAVE_LEN"
    using w by (simp add: spo2_store_def fr)
  moreover have "adjust_wait_cnt (spo2_store o2 s0) = adjust_wait_cnt s"
    by (simp add: spo2_store_frame fr)
  ultimately show ?thesis
    using c by (simp add: SPO2Task_def f Let_def)
qed

lemma SPO2Task_analyse:
  assumes f: "spo2_filter s = Some (o0, o2, s0)"
    and w: "SPO2_Wave_index s = SP_WAVE_LEN - 1"
    and c: "adjust_wait_cnt s \<le> 0"
  shows "SPO2Task wave now s =
           (case spo2_analyse ((spo2_store o2 s0)\<lparr>SPO2_Wave_index := 0\<rparr>) of
              None \<Rightarrow> None
            | Some s3 \<Rightarrow>
                (case spo2_print wave o0 of
                   None \<Rightarrow> None
                 | Some pr \<Rightarrow> Some (fst (auto_gain s3) @ pr, snd (auto_gain s3))))"
proof -
  note fr = spo2_filter_frame [OF f]
  let ?s2 = "(spo2_store o2 s0)\<lparr>SPO2_Wave_index := 0\<rparr>"
  have i1: "SPO2_Wave_index (spo2_store o2 s0) = SP_WAVE_LEN"
    using w by (simp add: spo2_store_def fr)
  have c2: "adjust_wait_cnt (spo2_store o2 s0) = adjust_wait_cnt s"
    by (simp add: spo2_store_frame fr)
  show ?thesis
  proof (cases "spo2_analyse ?s2")
    case None
    then show ?thesis
      using i1 c2 c by (simp add: SPO2Task_def f Let_def)
  next
    case (Some s3)
    have "SPO2_Wave_index s3 = 0"
      using spo2_analyse_frame(10) [OF Some] by simp
    then have "SPO2_Wave_index (snd (auto_gain s3)) = 0"
      by (simp add: auto_gain_frame)
    then have "spo2_tail wave now o0 (fst (auto_gain s3)) (snd (auto_gain s3)) =
       (case spo2_print wave o0 of None \<Rightarrow> None
        | Some pr \<Rightarrow> Some (fst (auto_gain s3) @ pr, snd (auto_gain s3)))"
      by (rule spo2_tail_idle)
    then show ?thesis
      using i1 c2 c Some by (simp add: SPO2Task_def f Let_def case_prod_beta)
  qed
qed

lemma SPO2Task_nowrap:
  assumes f: "spo2_filter s = Some (o0, o2, s0)"
    and w: "SPO2_Wave_index s < SP_WAVE_LEN - 1"
  shows "SPO2Task wave now s = spo2_tail wave now o0 [] (spo2_store o2 s0)"
proof -
  note fr = spo2_filter_frame [OF f]
  have "SPO2_Wave_index (spo2_store o2 s0) < SP_WAVE_LEN"
    using w by (simp add: spo2_store_def fr)
  then show ?thesis
    by (simp add: SPO2Task_def f Let_def)
qed


lemma spo2_tail_frame:
  assumes "spo2_tail wave now o0 outs s = Some (outs', s')"
  shows "spo2_peakThreshold s' = spo2_peakThreshold s"
    and "arr_SPO2_Wave_Rate s' = arr_SPO2_Wave_Rate s"
    and "arr_SPO2_Wave_RED s' = arr_SPO2_Wave_RED s"
    and "arr_SPO2_Wave_IR s' = arr_SPO2_Wave_IR s"
    and "s_DACdata s' = s_DACdata s"
    and "adjust_wait_cnt s' = adjust_wait_cnt s"
    and "SPO2_Wave_index s' = SPO2_Wave_index s"
    and "peak2peak_RED s' = peak2peak_RED s"
    and "peak2peak_IR s' = peak2peak_IR s"
    and "value_R s' = value_R s"
    and "value_SPO2 s' = value_SPO2 s"
    and "rValue_buf s' = rValue_buf s"
proof -
  from assms obtain s1 where d: "spo2_detect now s = Some s1" and e: "s' = s1"
    by (auto simp: spo2_tail_def split: option.splits)
  note dr = spo2_detect_frame [OF d]
  show "spo2_peakThreshold s' = spo2_peakThreshold s"
    and "arr_SPO2_Wave_Rate s' = arr_SPO2_Wave_Rate s"
    and "arr_SPO2_Wave_RED s' = arr_SPO2_Wave_RED s"
    and "arr_SPO2_Wave_IR s' = arr_SPO2_Wave_IR s"
    and "s_DACdata s' = s_DACdata s"
    and "adjust_wait_cnt s' = adjust_wait_cnt s"
    and "SPO2_Wave_index s' = SPO2_Wave_index s"
    and "peak2peak_RED s' = peak2peak_RED s"
    and "peak2peak_IR s' = peak2peak_IR s"
    and "value_R s' = value_R s"
    and "value_SPO2 s' = value_SPO2 s"
    and "rValue_buf s' = rValue_buf s"
    by (simp_all add: e dr)
qed




lemmas filter_defs = spo2_IIRHighpass_def spo2_IIRLowpass_def biquad_def
  spo2_IIRHighpass_a_def spo2_IIRHighpass_b_def spo2_IIRLowpass_a_def spo2_IIRLowpass_b_def
  SmoothingFilter_def smoother_init_def

lemma list_update_replicate_same: "(replicate n x)[i := x] = replicate n x"
  by (cases "i < n") (simp_all add: list_update_same_conv list_update_beyond)

lemma spike_filter:
  "spo2_filter (spo2_spike\<lparr>spo2_peakThreshold := t, adjust_wait_cnt := c\<rparr>) =
     Some ((0, 0), (0, 0),
       spo2_spike\<lparr>spo2_peakThreshold := t, adjust_wait_cnt := c,
                  smooth_RED := \<lparr>sm_i = 1, sm_buf = replicate 5 0\<rparr>,
                  smooth_IR := \<lparr>sm_i = 1, sm_buf = replicate 5 0\<rparr>\<rparr>)"
  by (simp add: spo2_filter_def spo2_spike_def spo2_start_def filter_defs Let_def
      list_update_replicate_same)

lemma calSpO2_first: "calSpO2 0 9 (replicate 5 0) 0 = Some (0, replicate 5 0, 99)"
  by code_simp

lemma spike_task:
  "SPO2Task False 0 (spo2_spike\<lparr>spo2_peakThreshold := t, adjust_wait_cnt := 0\<rparr>) =
     Some ([AdjustDAC 280],
       spo2_spike\<lparr>smooth_RED := \<lparr>sm_i = 1, sm_buf = replicate 5 0\<rparr>,
                  smooth_IR := \<lparr>sm_i = 1, sm_buf = replicate 5 0\<rparr>,
                  SPO2_Wave_index := 0, peak2peak_RED := 0, peak2peak_IR := 9,
                  spo2_peakThreshold := 6, value_R := 0, value_SPO2 := 99,
                  s_DACdata := 280, adjust_wait_cnt := 1\<rparr>)"
proof -
  let ?s = "spo2_spike\<lparr>spo2_peakThreshold := t, adjust_wait_cnt := 0\<rparr>"
  have w: "SPO2_Wave_index ?s = SP_WAVE_LEN - 1"
    and c: "adjust_wait_cnt ?s \<le> 0"
    by (simp_all add: spo2_spike_def spo2_start_def)
  show ?thesis
    unfolding SPO2Task_analyse [OF spike_filter w c]
    by (simp add: spo2_analyse_def spo2_store_def spo2_spike_def spo2_start_def
       Analyze_SPO2Wave_eq list_update_replicate_same calSpO2_first refreshed_threshold_def
       auto_gain_def spo2_print_def Let_def)
qed

lemma spike_cooldown:
  "SPO2Task False 0 (spo2_spike\<lparr>spo2_peakThreshold := t, adjust_wait_cnt := 1\<rparr>) =
     Some ([],
       spo2_spike\<lparr>smooth_RED := \<lparr>sm_i = 1, sm_buf = replicate 5 0\<rparr>,
                  smooth_IR := \<lparr>sm_i = 1, sm_buf = replicate 5 0\<rparr>,
                  SPO2_Wave_index := 0, spo2_peakThreshold := t, adjust_wait_cnt := 0\<rparr>)"
proof -
  let ?s = "spo2_spike\<lparr>spo2_peakThreshold := t, adjust_wait_cnt := 1\<rparr>"
  have w: "SPO2_Wave_index ?s = SP_WAVE_LEN - 1"
    and c: "adjust_wait_cnt ?s > 0"
    by (simp_all add: spo2_spike_def spo2_start_def)
  show ?thesis
    unfolding SPO2Task_cooldown [OF spike_filter w c]
    by (simp add: spo2_store_def spo2_spike_def spo2_start_def list_update_replicate_same)
qed















section \<open>SpO2 wrap: analysis, LED drive adjustment, cool-down\<close>

lemma dac_up:
  fixes d :: u16
  assumes "d < 500"
  shows "unat (if d + 40 > 500 then 500 else d + 40) = min (unat d + 40) 500"
    and "(if d + 40 > 500 then 500 else d + 40) \<noteq> d"
proof -
  have b: "unat d < 500" using assms by (simp add: word_less_nat_alt)
  have a: "unat (d + 40) = unat d + 40"
    using b by (simp add: unat_word_ariths)
  have c: "d + 40 > 500 \<longleftrightarrow> unat d + 40 > 500"
    by (simp add: word_less_nat_alt a)
  show u: "unat (if d + 40 > 500 then 500 else d + 40) = min (unat d + 40) 500"
    using a c by simp
  show "(if d + 40 > 500 then 500 else d + 40) \<noteq> d"
  proof
    assume "(if d + 40 > 500 then 500 else d + 40) = d"
    then have "unat d = min (unat d + 40) 500" using u by simp
    then show False using b by (simp add: min_def split: if_splits)
  qed
qed


lemma dac_down:
  fixes d :: u16
  assumes "d > 100"
  shows "unat (if d - 40 < 100 then 100 else d - 40) = max (unat d - 40) 100"
    and "(if d - 40 < 100 then 100 else d - 40) \<noteq> d"
proof -
  have b: "unat d > 100" using assms by (simp add: word_less_nat_alt)
  have "(40 :: u16) \<le> d" using b by (simp add: word_le_nat_alt)
  then have a: "unat (d - 40) = unat d - 40"
    using unat_sub [of 40 d] by simp
  have c: "d - 40 < 100 \<longleftrightarrow> unat d - 40 < 100"
    by (simp add: word_less_nat_alt a)
  show u: "unat (if d - 40 < 100 then 100 else d - 40) = max (unat d - 40) 100"
    using a c by simp
  show "(if d - 40 < 100 then 100 else d - 40) \<noteq> d"
  proof
    assume "(if d - 40 < 100 then 100 else d - 40) = d"
    then have "unat d = max (unat d - 40) 100" using u by simp
    then show False using b by (simp add: max_def split: if_splits)
  qed
qed

lemma auto_gain_up:
  assumes h: "peak2peak_RED s < 20" "s_DACdata s < RED_INTENSITY_MAX"
  shows "unat (s_DACdata (snd (auto_gain s))) = min (unat (s_DACdata s) + 40) 500"
    and "s_DACdata (snd (auto_gain s)) \<noteq> s_DACdata s"
    and "adjust_wait_cnt (snd (auto_gain s)) = 1"
    and "fst (auto_gain s) = [AdjustDAC (s_DACdata (snd (auto_gain s)))]"
proof -
  have e: "auto_gain s =
      ([AdjustDAC (if s_DACdata s + 40 > 500 then 500 else s_DACdata s + 40)],
       s\<lparr>s_DACdata := (if s_DACdata s + 40 > 500 then 500 else s_DACdata s + 40),
         adjust_wait_cnt := 1\<rparr>)"
    using h by (simp add: auto_gain_def Let_def)
  show "unat (s_DACdata (snd (auto_gain s))) = min (unat (s_DACdata s) + 40) 500"
    unfolding e using dac_up(1) [OF h(2)] by simp
  show "s_DACdata (snd (auto_gain s)) \<noteq> s_DACdata s"
    unfolding e using dac_up(2) [OF h(2)] by simp
  show "adjust_wait_cnt (snd (auto_gain s)) = 1" unfolding e by simp
  show "fst (auto_gain s) = [AdjustDAC (s_DACdata (snd (auto_gain s)))]" unfolding e by simp
qed

lemma auto_gain_down:
  assumes h: "peak2peak_RED s > 80" "s_DACdata s > RED_INTENSITY_MIN"
  shows "unat (s_DACdata (snd (auto_gain s))) = max (unat (s_DACdata s) - 40) 100"
    and "s_DACdata (snd (auto_gain s)) \<noteq> s_DACdata s"
    and "adjust_wait_cnt (snd (auto_gain s)) = 1"
    and "fst (auto_gain s) = [AdjustDAC (s_DACdata (snd (auto_gain s)))]"
proof -
  have "\<not> peak2peak_RED s < 20" using h(1) by simp
  then have e: "auto_gain s =
      ([AdjustDAC (if s_DACdata s - 40 < 100 then 100 else s_DACdata s - 40)],
       s\<lparr>s_DACdata := (if s_DACdata s - 40 < 100 then 100 else s_DACdata s - 40),
         adjust_wait_cnt := 1\<rparr>)"
    using h by (simp add: auto_gain_def Let_def)
  show "unat (s_DACdata (snd (auto_gain s))) = max (unat (s_DACdata s) - 40) 100"
    unfolding e using dac_down(1) [OF h(2)] by simp
  show "s_DACdata (snd (auto_gain s)) \<noteq> s_DACdata s"
    unfolding e using dac_down(2) [OF h(2)] by simp
  show "adjust_wait_cnt (snd (auto_gain s)) = 1" unfolding e by simp
  show "fst (auto_gain s) = [AdjustDAC (s_DACdata (snd (auto_gain s)))]" unfolding e by simp
qed

lemma auto_gain_none:
  assumes "\<not> (peak2peak_RED s < 20 \<and> s_DACdata s < RED_INTENSITY_MAX)"
    and "\<not> (peak2peak_RED s > 80 \<and> s_DACdata s > RED_INTENSITY_MIN)"
  shows "auto_gain s = ([], s)"
  using assms by (auto simp: auto_gain_def)

lemma calSpO2_result:
  assumes "calSpO2 redPeak irPeak rbuf v = Some (rValue, rbuf', v')"
  shows "irPeak \<noteq> 0" and "rValue = redPeak / irPeak * 1000"
    and "v' = spo2_clamp (spo2_table (median_rInt rbuf') v)"
  using assms by (auto simp: calSpO2_def Let_def split: if_splits option.splits)

lemma spo2_analyse_result:
  assumes a: "spo2_analyse s = Some s'"
    and l: "length (arr_SPO2_Wave_RED s) = SP_WAVE_LEN"
       "length (arr_SPO2_Wave_IR s) = SP_WAVE_LEN"
       "length (arr_SPO2_Wave_Rate s) = SP_WAVE_LEN"
  shows "peak2peak_RED s' = window_p2p (arr_SPO2_Wave_RED s)"
    and "peak2peak_IR s' = window_p2p (arr_SPO2_Wave_IR s)"
    and "peak2peak_IR s' \<noteq> 0"
    and "value_R s' = peak2peak_RED s' / peak2peak_IR s' * 1000"
    and "value_SPO2 s' = spo2_clamp (spo2_table (median_rInt (rValue_buf s')) (value_SPO2 s))"
proof -
  from a obtain rv rb sp where
    c: "calSpO2 (window_p2p (arr_SPO2_Wave_RED s)) (window_p2p (arr_SPO2_Wave_IR s))
          (rValue_buf s) (value_SPO2 s) = Some (rv, rb, sp)"
    and e: "s' = s\<lparr>peak2peak_RED := window_p2p (arr_SPO2_Wave_RED s),
                   peak2peak_IR := window_p2p (arr_SPO2_Wave_IR s),
                   spo2_peakThreshold := refreshed_threshold 3 (set (arr_SPO2_Wave_Rate s)),
                   value_R := rv, rValue_buf := rb, value_SPO2 := sp\<rparr>"
    by (auto simp: spo2_analyse_def Analyze_SPO2Wave_eq [OF l] window_p2p_def
        split: option.splits)
  note r = calSpO2_result [OF c]
  show "peak2peak_RED s' = window_p2p (arr_SPO2_Wave_RED s)" by (simp add: e)
  show "peak2peak_IR s' = window_p2p (arr_SPO2_Wave_IR s)" by (simp add: e)
  show "peak2peak_IR s' \<noteq> 0" using r(1) by (simp add: e)
  show "value_R s' = peak2peak_RED s' / peak2peak_IR s' * 1000" using r(2) by (simp add: e)
  show "value_SPO2 s' = spo2_clamp (spo2_table (median_rInt (rValue_buf s')) (value_SPO2 s))"
    using r(3) by (simp add: e)
qed

text \<open>What a wrap during the cool-down does.\<close>

lemma wrap_cooldown:
  assumes t: "SPO2Task wave now s = Some (outs, s')"
    and w: "SPO2_Wave_index s = SP_WAVE_LEN - 1"
    and c: "adjust_wait_cnt s > 0"
  shows "outs = []" and "s_DACdata s' = s_DACdata s"
    and "peak2peak_RED s' = peak2peak_RED s" and "peak2peak_IR s' = peak2peak_IR s"
    and "value_R s' = value_R s" and "value_SPO2 s' = value_SPO2 s"
    and "rValue_buf s' = rValue_buf s"
    and "adjust_wait_cnt s' = adjust_wait_cnt s - 1" and "SPO2_Wave_index s' = 0"
proof -
  from t obtain o0 o2 s0 where f: "spo2_filter s = Some (o0, o2, s0)"
    by (auto simp: SPO2Task_def split: option.splits)
  note fr = spo2_filter_frame [OF f]
  from t SPO2Task_cooldown [OF f w c, of wave now]
  have e: "outs = []" "s' = (spo2_store o2 s0)\<lparr>SPO2_Wave_index := 0,
                       adjust_wait_cnt := adjust_wait_cnt s - 1\<rparr>" by simp_all
  show "outs = []" by (rule e(1))
  show "s_DACdata s' = s_DACdata s"
    and "peak2peak_RED s' = peak2peak_RED s" and "peak2peak_IR s' = peak2peak_IR s"
    and "value_R s' = value_R s" and "value_SPO2 s' = value_SPO2 s"
    and "rValue_buf s' = rValue_buf s"
    and "adjust_wait_cnt s' = adjust_wait_cnt s - 1" and "SPO2_Wave_index s' = 0"
    by (simp_all add: e(2) spo2_store_frame fr)
qed

text \<open>What a wrap without cool-down does.\<close>

lemma wrap_analysis:
  assumes t: "SPO2Task wave now s = Some (outs, s')"
    and w: "SPO2_Wave_index s = SP_WAVE_LEN - 1"
    and c: "adjust_wait_cnt s \<le> 0"
    and len: "length (arr_SPO2_Wave_RED s) = SP_WAVE_LEN"
       "length (arr_SPO2_Wave_IR s) = SP_WAVE_LEN"
       "length (arr_SPO2_Wave_Rate s) = SP_WAVE_LEN"
  obtains s3 pr where
    "peak2peak_RED s3 = window_p2p (arr_SPO2_Wave_RED s')"
    "peak2peak_IR s3 = window_p2p (arr_SPO2_Wave_IR s')"
    "peak2peak_IR s3 \<noteq> 0"
    "value_R s3 = peak2peak_RED s3 / peak2peak_IR s3 * 1000"
    "value_SPO2 s3 = spo2_clamp (spo2_table (median_rInt (rValue_buf s3)) (value_SPO2 s))"
    "s_DACdata s3 = s_DACdata s" "adjust_wait_cnt s3 = adjust_wait_cnt s"
    "SPO2_Wave_index s3 = 0"
    "s' = snd (auto_gain s3)" "outs = fst (auto_gain s3) @ pr"
    "\<forall>d. AdjustDAC d \<notin> set pr"
proof -
  from t obtain o0 o2 s0 where f: "spo2_filter s = Some (o0, o2, s0)"
    by (auto simp: SPO2Task_def split: option.splits)
  note fr = spo2_filter_frame [OF f]
  let ?s2 = "(spo2_store o2 s0)\<lparr>SPO2_Wave_index := 0\<rparr>"
  from t SPO2Task_analyse [OF f w c, of wave now]
  obtain s3 pr where a: "spo2_analyse ?s2 = Some s3" and p: "spo2_print wave o0 = Some pr"
    and e: "s' = snd (auto_gain s3)" "outs = fst (auto_gain s3) @ pr"
    by (auto split: option.splits)
  have l2: "length (arr_SPO2_Wave_RED ?s2) = SP_WAVE_LEN"
       "length (arr_SPO2_Wave_IR ?s2) = SP_WAVE_LEN"
       "length (arr_SPO2_Wave_Rate ?s2) = SP_WAVE_LEN"
    using len by (simp_all add: spo2_store_def fr)
  note ar = spo2_analyse_result [OF a l2]
  note af = spo2_analyse_frame [OF a]
  have wr: "arr_SPO2_Wave_RED s' = arr_SPO2_Wave_RED ?s2"
    and wi: "arr_SPO2_Wave_IR s' = arr_SPO2_Wave_IR ?s2"
    by (simp_all add: e(1) auto_gain_frame af)
  have np: "\<forall>d. AdjustDAC d \<notin> set pr"
    using p by (auto simp: spo2_print_def split: if_splits option.splits)
  show ?thesis
  proof (rule that [of s3 pr])
    show "peak2peak_RED s3 = window_p2p (arr_SPO2_Wave_RED s')" using ar(1) wr by simp
    show "peak2peak_IR s3 = window_p2p (arr_SPO2_Wave_IR s')" using ar(2) wi by simp
    show "peak2peak_IR s3 \<noteq> 0" by (rule ar(3))
    show "value_R s3 = peak2peak_RED s3 / peak2peak_IR s3 * 1000" by (rule ar(4))
    show "value_SPO2 s3 = spo2_clamp (spo2_table (median_rInt (rValue_buf s3)) (value_SPO2 s))"
      using ar(5) by (simp add: spo2_store_frame fr)
    show "s_DACdata s3 = s_DACdata s" by (simp add: af spo2_store_frame fr)
    show "adjust_wait_cnt s3 = adjust_wait_cnt s" by (simp add: af spo2_store_frame fr)
    show "SPO2_Wave_index s3 = 0" by (simp add: af)
    show "s' = snd (auto_gain s3)" by (rule e(1))
    show "outs = fst (auto_gain s3) @ pr" by (rule e(2))
    show "\<forall>d. AdjustDAC d \<notin> set pr" by (rule np)
  qed
qed


lemma wrap_analysis_gain:
  assumes t: "SPO2Task wave now s = Some (outs, s')"
    and w: "SPO2_Wave_index s = SP_WAVE_LEN - 1"
    and c: "adjust_wait_cnt s \<le> 0"
    and len: "length (arr_SPO2_Wave_RED s) = SP_WAVE_LEN"
       "length (arr_SPO2_Wave_IR s) = SP_WAVE_LEN"
       "length (arr_SPO2_Wave_Rate s) = SP_WAVE_LEN"
  shows "peak2peak_RED s' = window_p2p (arr_SPO2_Wave_RED s')"
    and "peak2peak_IR s' = window_p2p (arr_SPO2_Wave_IR s')"
    and "value_R s' = peak2peak_RED s' / peak2peak_IR s' * 1000"
    and "value_SPO2 s' =
              spo2_clamp (spo2_table (median_rInt (rValue_buf s')) (value_SPO2 s))"
    and "s_DACdata s' \<noteq> s_DACdata s \<longleftrightarrow>
               (peak2peak_RED s' < 20 \<and> s_DACdata s < RED_INTENSITY_MAX) \<or>
               (peak2peak_RED s' > 80 \<and> s_DACdata s > RED_INTENSITY_MIN)"
    and "(\<exists>d. AdjustDAC d \<in> set outs) \<longleftrightarrow> s_DACdata s' \<noteq> s_DACdata s"
    and "peak2peak_RED s' < 20 \<and> s_DACdata s < RED_INTENSITY_MAX \<longrightarrow>
           unat (s_DACdata s') = min (unat (s_DACdata s) + 40) 500 \<and>
           adjust_wait_cnt s' = 1 \<and> AdjustDAC (s_DACdata s') \<in> set outs"
    and "peak2peak_RED s' > 80 \<and> s_DACdata s > RED_INTENSITY_MIN \<longrightarrow>
           unat (s_DACdata s') = max (unat (s_DACdata s) - 40) 100 \<and>
           adjust_wait_cnt s' = 1 \<and> AdjustDAC (s_DACdata s') \<in> set outs"
    and "s_DACdata s' \<noteq> s_DACdata s \<longrightarrow> adjust_wait_cnt s' = 1"
    and "SPO2_Wave_index s' = 0"
proof -
  have "peak2peak_RED s' = window_p2p (arr_SPO2_Wave_RED s') \<and>
    peak2peak_IR s' = window_p2p (arr_SPO2_Wave_IR s') \<and>
    value_R s' = peak2peak_RED s' / peak2peak_IR s' * 1000 \<and>
    value_SPO2 s' = spo2_clamp (spo2_table (median_rInt (rValue_buf s')) (value_SPO2 s)) \<and>
    (s_DACdata s' \<noteq> s_DACdata s \<longleftrightarrow>
               (peak2peak_RED s' < 20 \<and> s_DACdata s < RED_INTENSITY_MAX) \<or>
               (peak2peak_RED s' > 80 \<and> s_DACdata s > RED_INTENSITY_MIN)) \<and>
    ((\<exists>d. AdjustDAC d \<in> set outs) \<longleftrightarrow> s_DACdata s' \<noteq> s_DACdata s) \<and>
    (peak2peak_RED s' < 20 \<and> s_DACdata s < RED_INTENSITY_MAX \<longrightarrow>
           unat (s_DACdata s') = min (unat (s_DACdata s) + 40) 500 \<and>
           adjust_wait_cnt s' = 1 \<and> AdjustDAC (s_DACdata s') \<in> set outs) \<and>
    (peak2peak_RED s' > 80 \<and> s_DACdata s > RED_INTENSITY_MIN \<longrightarrow>
           unat (s_DACdata s') = max (unat (s_DACdata s) - 40) 100 \<and>
           adjust_wait_cnt s' = 1 \<and> AdjustDAC (s_DACdata s') \<in> set outs) \<and>
    (s_DACdata s' \<noteq> s_DACdata s \<longrightarrow> adjust_wait_cnt s' = 1) \<and>
    SPO2_Wave_index s' = 0"
  proof (rule wrap_analysis [OF t w c len])
    fix s3 pr
    assume a1: "peak2peak_RED s3 = window_p2p (arr_SPO2_Wave_RED s')"
      and a2: "peak2peak_IR s3 = window_p2p (arr_SPO2_Wave_IR s')"
      and a3: "peak2peak_IR s3 \<noteq> 0"
      and a4: "value_R s3 = peak2peak_RED s3 / peak2peak_IR s3 * 1000"
      and a5: "value_SPO2 s3 =
          spo2_clamp (spo2_table (median_rInt (rValue_buf s3)) (value_SPO2 s))"
      and d: "s_DACdata s3 = s_DACdata s"
      and cw: "adjust_wait_cnt s3 = adjust_wait_cnt s"
      and ix: "SPO2_Wave_index s3 = 0"
      and e1: "s' = snd (auto_gain s3)"
      and e2: "outs = fst (auto_gain s3) @ pr"
      and np: "\<forall>d. AdjustDAC d \<notin> set pr"
    note g = auto_gain_frame [of s3]
    have pr: "peak2peak_RED s' = peak2peak_RED s3" by (simp add: e1 g)
    have c1: "peak2peak_RED s' = window_p2p (arr_SPO2_Wave_RED s')" using a1 pr by simp
    have c2: "peak2peak_IR s' = window_p2p (arr_SPO2_Wave_IR s')" using a2 by (simp add: e1 g)
    have c3: "value_R s' = peak2peak_RED s' / peak2peak_IR s' * 1000"
      using a4 by (simp add: e1 g)
    have c4: "value_SPO2 s' =
        spo2_clamp (spo2_table (median_rInt (rValue_buf s')) (value_SPO2 s))"
      using a5 by (simp add: e1 g)
    have c10: "SPO2_Wave_index s' = 0" using ix by (simp add: e1 g)
    let ?up = "peak2peak_RED s3 < 20 \<and> s_DACdata s3 < RED_INTENSITY_MAX"
    let ?down = "peak2peak_RED s3 > 80 \<and> s_DACdata s3 > RED_INTENSITY_MIN"
    have up: "unat (s_DACdata s') = min (unat (s_DACdata s3) + 40) 500 \<and>
        s_DACdata s' \<noteq> s_DACdata s3 \<and> adjust_wait_cnt s' = 1 \<and>
        AdjustDAC (s_DACdata s') \<in> set outs" if u: ?up
    proof -
      from u have u1: "peak2peak_RED s3 < 20" and u2: "s_DACdata s3 < RED_INTENSITY_MAX"
        by simp_all
      note r = auto_gain_up [OF u1 u2]
      show ?thesis using r by (simp add: e1 e2)
    qed
    have down: "unat (s_DACdata s') = max (unat (s_DACdata s3) - 40) 100 \<and>
        s_DACdata s' \<noteq> s_DACdata s3 \<and> adjust_wait_cnt s' = 1 \<and>
        AdjustDAC (s_DACdata s') \<in> set outs" if u: ?down
    proof -
      from u have u1: "peak2peak_RED s3 > 80" and u2: "s_DACdata s3 > RED_INTENSITY_MIN"
        by simp_all
      note r = auto_gain_down [OF u1 u2]
      show ?thesis using r by (simp add: e1 e2)
    qed
    have none: "s_DACdata s' = s_DACdata s3 \<and> \<not> (\<exists>d. AdjustDAC d \<in> set outs)"
      if u1: "\<not> ?up" and u2: "\<not> ?down"
    proof -
      have n: "auto_gain s3 = ([], s3)" using u1 u2 by (rule auto_gain_none)
      show ?thesis using np by (simp add: e1 e2 n)
    qed
    have c5: "s_DACdata s' \<noteq> s_DACdata s3 \<longleftrightarrow> ?up \<or> ?down"
      using up down none by blast
    have c6: "(\<exists>d. AdjustDAC d \<in> set outs) \<longleftrightarrow> s_DACdata s' \<noteq> s_DACdata s3"
      using up down none by blast
    have c9: "s_DACdata s' \<noteq> s_DACdata s3 \<longrightarrow> adjust_wait_cnt s' = 1"
      using up down none by blast
    have c7: "?up \<longrightarrow> unat (s_DACdata s') = min (unat (s_DACdata s3) + 40) 500 \<and>
           adjust_wait_cnt s' = 1 \<and> AdjustDAC (s_DACdata s') \<in> set outs"
      using up by blast
    have c8: "?down \<longrightarrow> unat (s_DACdata s') = max (unat (s_DACdata s3) - 40) 100 \<and>
           adjust_wait_cnt s' = 1 \<and> AdjustDAC (s_DACdata s') \<in> set outs"
      using down by blast
    show ?thesis
      using c1 c2 c3 c4 c5 c6 c7 c8 c9 c10 unfolding pr [symmetric] d by (intro conjI)
  qed
  then show "peak2peak_RED s' = window_p2p (arr_SPO2_Wave_RED s')"
    and "peak2peak_IR s' = window_p2p (arr_SPO2_Wave_IR s')"
    and "value_R s' = peak2peak_RED s' / peak2peak_IR s' * 1000"
    and "value_SPO2 s' =
              spo2_clamp (spo2_table (median_rInt (rValue_buf s')) (value_SPO2 s))"
    and "s_DACdata s' \<noteq> s_DACdata s \<longleftrightarrow>
               (peak2peak_RED s' < 20 \<and> s_DACdata s < RED_INTENSITY_MAX) \<or>
               (peak2peak_RED s' > 80 \<and> s_DACdata s > RED_INTENSITY_MIN)"
    and "(\<exists>d. AdjustDAC d \<in> set outs) \<longleftrightarrow> s_DACdata s' \<noteq> s_DACdata s"
    and "peak2peak_RED s' < 20 \<and> s_DACdata s < RED_INTENSITY_MAX \<longrightarrow>
           unat (s_DACdata s') = min (unat (s_DACdata s) + 40) 500 \<and>
           adjust_wait_cnt s' = 1 \<and> AdjustDAC (s_DACdata s') \<in> set outs"
    and "peak2peak_RED s' > 80 \<and> s_DACdata s > RED_INTENSITY_MIN \<longrightarrow>
           unat (s_DACdata s') = max (unat (s_DACdata s) - 40) 100 \<and>
           adjust_wait_cnt s' = 1 \<and> AdjustDAC (s_DACdata s') \<in> set outs"
    and "s_DACdata s' \<noteq> s_DACdata s \<longrightarrow> adjust_wait_cnt s' = 1"
    and "SPO2_Wave_index s' = 0"
    by blast+
qed


text \<open>
  Claim C1, amended. At a wrap during the cool-down the call neither analyses nor
  changes the LED drive: it produces no output and only counts the cool-down down. At a
  wrap with no cool-down active the call always analyses (peak-to-peak values over the
  windows just completed, \<open>R\<close>, saturation) and, in that same call, changes the LED
  drive exactly when the RED peak-to-peak value just measured is below 20 with the drive
  below the maximum, or above 80 with the drive above the minimum. A gain change thus
  never happens in a wrap without analysis, and analysis and gain change do share a wrap.
\<close>

theorem wrap_measures_or_waits:
  assumes t: "SPO2Task wave now s = Some (outs, s')"
    and w: "SPO2_Wave_index s = SP_WAVE_LEN - 1"
    and len: "length (arr_SPO2_Wave_RED s) = SP_WAVE_LEN"
       "length (arr_SPO2_Wave_IR s) = SP_WAVE_LEN"
       "length (arr_SPO2_Wave_Rate s) = SP_WAVE_LEN"
  shows "(adjust_wait_cnt s > 0 \<longrightarrow>
            outs = [] \<and> s_DACdata s' = s_DACdata s \<and>
            peak2peak_RED s' = peak2peak_RED s \<and> peak2peak_IR s' = peak2peak_IR s \<and>
            value_R s' = value_R s \<and> value_SPO2 s' = value_SPO2 s \<and>
            rValue_buf s' = rValue_buf s \<and>
            adjust_wait_cnt s' = adjust_wait_cnt s - 1) \<and>
         (adjust_wait_cnt s \<le> 0 \<longrightarrow>
            peak2peak_RED s' = window_p2p (arr_SPO2_Wave_RED s') \<and>
            peak2peak_IR s' = window_p2p (arr_SPO2_Wave_IR s') \<and>
            value_R s' = peak2peak_RED s' / peak2peak_IR s' * 1000 \<and>
            value_SPO2 s' =
              spo2_clamp (spo2_table (median_rInt (rValue_buf s')) (value_SPO2 s)) \<and>
            (s_DACdata s' \<noteq> s_DACdata s \<longleftrightarrow>
               (peak2peak_RED s' < 20 \<and> s_DACdata s < RED_INTENSITY_MAX) \<or>
               (peak2peak_RED s' > 80 \<and> s_DACdata s > RED_INTENSITY_MIN)) \<and>
            ((\<exists>d. AdjustDAC d \<in> set outs) \<longleftrightarrow> s_DACdata s' \<noteq> s_DACdata s))"
proof (intro conjI impI)
  assume c: "adjust_wait_cnt s > 0"
  note r = wrap_cooldown [OF t w c]
  show "outs = []" by (rule r(1))
  show "s_DACdata s' = s_DACdata s" by (rule r(2))
  show "peak2peak_RED s' = peak2peak_RED s" by (rule r(3))
  show "peak2peak_IR s' = peak2peak_IR s" by (rule r(4))
  show "value_R s' = value_R s" by (rule r(5))
  show "value_SPO2 s' = value_SPO2 s" by (rule r(6))
  show "rValue_buf s' = rValue_buf s" by (rule r(7))
  show "adjust_wait_cnt s' = adjust_wait_cnt s - 1" by (rule r(8))
next
  assume c: "adjust_wait_cnt s \<le> 0"
  note r = wrap_analysis_gain [OF t w c len]
  show "peak2peak_RED s' = window_p2p (arr_SPO2_Wave_RED s')" by (rule r(1))
  show "peak2peak_IR s' = window_p2p (arr_SPO2_Wave_IR s')" by (rule r(2))
  show "value_R s' = peak2peak_RED s' / peak2peak_IR s' * 1000" by (rule r(3))
  show "value_SPO2 s' = spo2_clamp (spo2_table (median_rInt (rValue_buf s')) (value_SPO2 s))"
    by (rule r(4))
  show "s_DACdata s' \<noteq> s_DACdata s \<longleftrightarrow>
               (peak2peak_RED s' < 20 \<and> s_DACdata s < RED_INTENSITY_MAX) \<or>
               (peak2peak_RED s' > 80 \<and> s_DACdata s > RED_INTENSITY_MIN)"
    by (rule r(5))
  show "(\<exists>d. AdjustDAC d \<in> set outs) \<longleftrightarrow> s_DACdata s' \<noteq> s_DACdata s"
    by (rule r(6))
qed

lemma spo2_spike_plain:
  "spo2_spike\<lparr>spo2_peakThreshold := 0, adjust_wait_cnt := 0\<rparr> = spo2_spike"
  by (simp add: spo2_spike_def spo2_start_def)

lemma spike_wrap:
  "SPO2Task False 0 spo2_spike =
     Some ([AdjustDAC 280],
       spo2_spike\<lparr>smooth_RED := \<lparr>sm_i = 1, sm_buf = replicate 5 0\<rparr>,
                  smooth_IR := \<lparr>sm_i = 1, sm_buf = replicate 5 0\<rparr>,
                  SPO2_Wave_index := 0, peak2peak_RED := 0, peak2peak_IR := 9,
                  spo2_peakThreshold := 6, value_R := 0, value_SPO2 := 99,
                  s_DACdata := 280, adjust_wait_cnt := 1\<rparr>)"
  using spike_task [of 0] by (simp only: spo2_spike_plain)

text \<open>
  Claim C1, as stated, fails: on \<open>spo2_spike\<close> (a wrap, no cool-down, RED peak-to-peak
  0) one call of \<open>SPO2Task\<close> measures (the IR peak-to-peak value goes from 0 to 9, the
  saturation from 0 to 99) and raises the LED drive from 240 to 280.
\<close>

theorem wrap_measures_and_adjusts_counterexample:
  "SPO2_Wave_index spo2_spike = SP_WAVE_LEN - 1 \<and>
   peak2peak_IR spo2_spike = 0 \<and>
   map_option (peak2peak_IR \<circ> snd) (SPO2Task False 0 spo2_spike) = Some 9 \<and>
   value_SPO2 spo2_spike = 0 \<and>
   map_option (value_SPO2 \<circ> snd) (SPO2Task False 0 spo2_spike) = Some 99 \<and>
   s_DACdata spo2_spike = 240 \<and>
   map_option (s_DACdata \<circ> snd) (SPO2Task False 0 spo2_spike) = Some 280 \<and>
   map_option fst (SPO2Task False 0 spo2_spike) = Some [AdjustDAC 280]"
  unfolding spike_wrap by (simp add: spo2_spike_def spo2_start_def)

text \<open>The amended statement at a measuring wrap and at a cool-down wrap.\<close>

theorem wrap_measures_or_waits_witness:
  "SPO2Task False 0 spo2_spike \<noteq> None \<and>
   adjust_wait_cnt spo2_spike \<le> 0 \<and>
   peak2peak_RED (snd (the (SPO2Task False 0 spo2_spike))) < 20 \<and>
   s_DACdata (snd (the (SPO2Task False 0 spo2_spike))) \<noteq> s_DACdata spo2_spike \<and>
   value_SPO2 (snd (the (SPO2Task False 0 spo2_spike))) =
     spo2_clamp (spo2_table
       (median_rInt (rValue_buf (snd (the (SPO2Task False 0 spo2_spike)))))
       (value_SPO2 spo2_spike)) \<and>
   SPO2Task False 0 (spo2_spike\<lparr>spo2_peakThreshold := 2, adjust_wait_cnt := 1\<rparr>) \<noteq> None \<and>
   s_DACdata (snd (the (SPO2Task False 0
       (spo2_spike\<lparr>spo2_peakThreshold := 2, adjust_wait_cnt := 1\<rparr>)))) = 240 \<and>
   adjust_wait_cnt (snd (the (SPO2Task False 0
       (spo2_spike\<lparr>spo2_peakThreshold := 2, adjust_wait_cnt := 1\<rparr>)))) = 0"
proof -
  let ?a = "snd (the (SPO2Task False 0 spo2_spike))"
  let ?c = "spo2_spike\<lparr>spo2_peakThreshold := 2, adjust_wait_cnt := 1\<rparr>"
  let ?b = "snd (the (SPO2Task False 0 ?c))"
  have ta: "SPO2Task False 0 spo2_spike = Some ([AdjustDAC 280], ?a)"
    by (simp add: spike_wrap)
  have tb: "SPO2Task False 0 ?c = Some ([], ?b)"
    by (simp add: spike_cooldown)
  have ha: "SPO2_Wave_index spo2_spike = SP_WAVE_LEN - 1"
    "length (arr_SPO2_Wave_RED spo2_spike) = SP_WAVE_LEN"
    "length (arr_SPO2_Wave_IR spo2_spike) = SP_WAVE_LEN"
    "length (arr_SPO2_Wave_Rate spo2_spike) = SP_WAVE_LEN"
    and ca: "adjust_wait_cnt spo2_spike \<le> 0" and da: "s_DACdata spo2_spike = 240"
    by (simp_all add: spo2_spike_def spo2_start_def)
  have hb: "SPO2_Wave_index ?c = SP_WAVE_LEN - 1"
    "length (arr_SPO2_Wave_RED ?c) = SP_WAVE_LEN"
    "length (arr_SPO2_Wave_IR ?c) = SP_WAVE_LEN"
    "length (arr_SPO2_Wave_Rate ?c) = SP_WAVE_LEN"
    and cb: "adjust_wait_cnt ?c > 0" "adjust_wait_cnt ?c = 1" and db: "s_DACdata ?c = 240"
    by (simp_all add: spo2_spike_def spo2_start_def)
  note A = wrap_measures_or_waits [OF ta ha, THEN conjunct2, THEN mp, OF ca]
  note B = wrap_measures_or_waits [OF tb hb, THEN conjunct1, THEN mp, OF cb(1)]
  have p: "peak2peak_RED ?a < 20" by (simp add: spike_wrap)
  have "s_DACdata ?a \<noteq> s_DACdata spo2_spike" using A p da by simp
  moreover have "value_SPO2 ?a =
     spo2_clamp (spo2_table (median_rInt (rValue_buf ?a)) (value_SPO2 spo2_spike))"
    using A by blast
  moreover have "s_DACdata ?b = 240" using B db by simp
  moreover have "adjust_wait_cnt ?b = 0" using B cb(2) by simp
  moreover have "SPO2Task False 0 spo2_spike \<noteq> None" by (simp add: spike_wrap)
  moreover have "SPO2Task False 0 ?c \<noteq> None" by (simp add: spike_cooldown)
  ultimately show ?thesis using ca p by blast
qed







lemma shift_zero: "shift_left 5 (replicate 5 (0::real)) = replicate 5 0"
  by code_simp

lemma sum_zero: "sum_loop (replicate 5 0) [0..<5] 0 = Some 0"
  by code_simp

lemma smooth_zero:
  assumes "sm_buf sm = replicate SMOOTH_LEN 0"
  shows "\<exists>sm'. SmoothingFilter SMOOTH_LEN 0 sm = Some (0, sm') \<and>
               sm_buf sm' = replicate SMOOTH_LEN 0"
  using assms
  by (simp add: SmoothingFilter_def Let_def shift_zero sum_zero list_update_replicate_same)












section \<open>Saturation from the median ratio\<close>

lemma upt_small:
  "[0..<1] = [0]" "[0..<2] = [0, 1]" "[0..<3] = [0, 1, 2]" "[0..<4] = [0, 1, 2, 3]"
  "[0..<5] = [0, 1, 2, 3, 4]"
  by (simp_all add: upt_conv_Cons)

lemma shift5: "shift_left 5 [a, b, c, d, e] = [b, c, d, e, e]"
  by (simp add: shift_left_def upt_small)


lemma bubble5:
  "bubbleSort [a, b, c, d, e] 5 =
     fold bubble_swap [0] (fold bubble_swap [0, 1] (fold bubble_swap [0, 1, 2]
       (fold bubble_swap [0, 1, 2, 3] [a, b, c, d, e])))"
  by (simp add: bubbleSort_def upt_small)

lemma copy5:
  "fold (\<lambda>i t. t[i := [a, b, c, d, e] ! i]) [0..<5] (replicate 5 (0 :: int)) = [a, b, c, d, e]"
  by (simp add: upt_small numeral_eq_Suc)

lemma median5:
  "median_rInt [a, b, c, d, e] = bubbleSort [a, b, c, d, e] 5 ! 2"
  by (simp add: median_rInt_def copy5 Let_def)


lemma bubble_swap5:
  "bubble_swap 0 [a, b, c, d, e] = (if a > b then [b, a mod 65536, c, d, e] else [a, b, c, d, e])"
  "bubble_swap (Suc 0) [a, b, c, d, e] = (if b > c then [a, c, b mod 65536, d, e] else [a, b, c, d, e])"
  "bubble_swap 2 [a, b, c, d, e] = (if c > d then [a, b, d, c mod 65536, e] else [a, b, c, d, e])"
  "bubble_swap 3 [a, b, c, d, e] = (if d > e then [a, b, c, e, d mod 65536] else [a, b, c, d, e])"
  by (simp_all add: bubble_swap_def Let_def numeral_eq_Suc)

lemma median_first: "median_rInt [0, 0, 0, 0, k] = 0"
  by (cases "k < 0") (simp_all add: median5 bubble5 bubble_swap5)

text \<open>
  The swap of \<open>bubbleSort\<close> goes through a \<open>uint16_t\<close>. For history values that fit,
  the sort is a sort and the middle entry is the median; a value that does not fit is
  reduced modulo 65536 when it is swapped.
\<close>

lemma mod_id16: "0 \<le> a \<Longrightarrow> a \<le> 65535 \<Longrightarrow> a mod 65536 = (a::int)"
  by simp

lemma bubbleSort_sorts:
  fixes a :: int
  assumes r: "0 \<le> a" "a \<le> 65535" "0 \<le> b" "b \<le> 65535" "0 \<le> c" "c \<le> 65535"
    "0 \<le> d" "d \<le> 65535" "0 \<le> e" "e \<le> 65535"
  shows "bubbleSort [a, b, c, d, e] 5 = sort [a, b, c, d, e]"
  using r by (simp add: bubble5 bubble_swap5 mod_id16 split: if_splits)

lemma median_rInt_wraps: "median_rInt [65936, 65936, 65936, 0, 0] = 400"
  by (simp add: median5 bubble5 bubble_swap5)


lemma spo2_table_mono:
  "r1 \<le> r2 \<Longrightarrow> r2 \<le> 1200 \<Longrightarrow> spo2_table r2 p \<le> spo2_table r1 p"
  unfolding spo2_table_def by (simp split: if_splits)


lemma spo2_table_rows:
  "(r \<le> 450 \<longrightarrow> spo2_clamp (spo2_table r p) = 99) \<and>
     (451 \<le> r \<and> r \<le> 470 \<longrightarrow> spo2_clamp (spo2_table r p) = 98) \<and>
     (471 \<le> r \<and> r \<le> 510 \<longrightarrow> spo2_clamp (spo2_table r p) = 97) \<and>
     (511 \<le> r \<and> r \<le> 540 \<longrightarrow> spo2_clamp (spo2_table r p) = 96) \<and>
     (541 \<le> r \<and> r \<le> 580 \<longrightarrow> spo2_clamp (spo2_table r p) = 95) \<and>
     (581 \<le> r \<and> r \<le> 600 \<longrightarrow> spo2_clamp (spo2_table r p) = 94) \<and>
     (601 \<le> r \<and> r \<le> 620 \<longrightarrow> spo2_clamp (spo2_table r p) = 93) \<and>
     (621 \<le> r \<and> r \<le> 640 \<longrightarrow> spo2_clamp (spo2_table r p) = 92) \<and>
     (641 \<le> r \<and> r \<le> 680 \<longrightarrow> spo2_clamp (spo2_table r p) = 91) \<and>
     (681 \<le> r \<and> r \<le> 720 \<longrightarrow> spo2_clamp (spo2_table r p) = 90) \<and>
     (721 \<le> r \<and> r \<le> 800 \<longrightarrow> spo2_clamp (spo2_table r p) = 89) \<and>
     (801 \<le> r \<and> r \<le> 940 \<longrightarrow> spo2_clamp (spo2_table r p) = 88) \<and>
     (941 \<le> r \<and> r \<le> 980 \<longrightarrow> spo2_clamp (spo2_table r p) = 87) \<and>
     (981 \<le> r \<and> r \<le> 1020 \<longrightarrow> spo2_clamp (spo2_table r p) = 86) \<and>
     (1021 \<le> r \<and> r \<le> 1060 \<longrightarrow> spo2_clamp (spo2_table r p) = 85) \<and>
     (1061 \<le> r \<and> r \<le> 1080 \<longrightarrow> spo2_clamp (spo2_table r p) = 84) \<and>
     (1081 \<le> r \<and> r \<le> 1100 \<longrightarrow> spo2_clamp (spo2_table r p) = 83) \<and>
     (1101 \<le> r \<and> r \<le> 1120 \<longrightarrow> spo2_clamp (spo2_table r p) = 82) \<and>
     (1121 \<le> r \<and> r \<le> 1150 \<longrightarrow> spo2_clamp (spo2_table r p) = 81) \<and>
     (1151 \<le> r \<and> r \<le> 1170 \<longrightarrow> spo2_clamp (spo2_table r p) = 80) \<and>
     (1171 \<le> r \<and> r \<le> 1200 \<longrightarrow> spo2_clamp (spo2_table r p) = 79)"
  by (simp add: spo2_table_def spo2_clamp_def)

lemma spo2_table_hold: "r > 1200 \<Longrightarrow> spo2_table r p = p"
  by (simp add: spo2_table_def)

lemma spo2_clamp_range: "70 \<le> spo2_clamp x \<and> spo2_clamp x \<le> 100"
  by (simp add: spo2_clamp_def)

lemma spo2_clamp_idle: "70 \<le> x \<Longrightarrow> x \<le> 100 \<Longrightarrow> spo2_clamp x = x"
  by (simp add: spo2_clamp_def)

text \<open>
  The history and the stored saturation are written by \<open>calSpO2\<close> only. After the first
  call the saturation lies in [70, 100]; before it, the history is all zero.
\<close>

lemma calSpO2_history:
  assumes c: "calSpO2 redPeak irPeak rbuf v = Some (rValue, rbuf', v')"
  shows "v' = spo2_clamp (spo2_table (median_rInt rbuf') v)"
    and "70 \<le> v' \<and> v' \<le> 100"
    and "rbuf = replicate R_BUFSIZE 0 \<Longrightarrow> median_rInt rbuf' = 0"
proof -
  show v: "v' = spo2_clamp (spo2_table (median_rInt rbuf') v)"
    by (rule calSpO2_result(3) [OF c])
  show "70 \<le> v' \<and> v' \<le> 100" unfolding v by (rule spo2_clamp_range)
  assume z: "rbuf = replicate R_BUFSIZE 0"
  from c obtain k where "rbuf' = (shift_left R_BUFSIZE rbuf)[R_BUFSIZE - 1 := k]"
    by (auto simp: calSpO2_def Let_def split: if_splits option.splits)
  then have "rbuf' = [0, 0, 0, 0, k]"
    by (simp add: z numeral_eq_Suc shift_left_def upt_conv_Cons)
  then show "median_rInt rbuf' = 0" by (simp add: median_first)
qed

lemma calSpO2_run_inv:
  "calSpO2_run ins (rbuf, v) = Some (rbuf', v') \<Longrightarrow>
   (70 \<le> v \<and> v \<le> 100) \<or> rbuf = replicate R_BUFSIZE 0 \<Longrightarrow>
   (70 \<le> v' \<and> v' \<le> 100) \<or> rbuf' = replicate R_BUFSIZE 0"
proof (induction ins arbitrary: rbuf v)
  case Nil
  then show ?case by simp
next
  case (Cons x ins)
  obtain redPeak irPeak where x: "x = (redPeak, irPeak)" by (cases x)
  from Cons.prems(1) obtain rValue rbuf1 v1 where
    c: "calSpO2 redPeak irPeak rbuf v = Some (rValue, rbuf1, v1)"
    and r: "calSpO2_run ins (rbuf1, v1) = Some (rbuf', v')"
    by (auto simp: x split: option.splits)
  from calSpO2_history(2) [OF c] have "(70 \<le> v1 \<and> v1 \<le> 100) \<or> rbuf1 = replicate R_BUFSIZE 0"
    by blast
  from Cons.IH [OF r this] show ?case .
qed

text \<open>
  The table, read on the value \<open>median_rInt\<close> that the code takes from the middle of
  its sorted copy of the history. In every analysis cycle (any number of earlier
  \<open>calSpO2\<close> calls since program start, then this one) that value is mapped to the
  saturation by the table with its inclusive integer bounds; a value above 1200 leaves
  the stored saturation as it was; the stored saturation after the cycle lies in
  [70, 100]; and the table is monotone non-increasing up to 1200. Whether
  \<open>median_rInt\<close> is the median of the history is a separate question, settled at the
  end of this section.
\<close>

theorem calSpO2_table_and_hold:
  assumes run: "calSpO2_run ins (replicate R_BUFSIZE 0, 0) = Some (rbuf, v)"
    and cal: "calSpO2 redPeak irPeak rbuf v = Some (rValue, rbuf', v')"
  shows "((median_rInt rbuf' \<le> 450 \<longrightarrow> v' = 99) \<and>
     (451 \<le> median_rInt rbuf' \<and> median_rInt rbuf' \<le> 470 \<longrightarrow> v' = 98) \<and>
     (471 \<le> median_rInt rbuf' \<and> median_rInt rbuf' \<le> 510 \<longrightarrow> v' = 97) \<and>
     (511 \<le> median_rInt rbuf' \<and> median_rInt rbuf' \<le> 540 \<longrightarrow> v' = 96) \<and>
     (541 \<le> median_rInt rbuf' \<and> median_rInt rbuf' \<le> 580 \<longrightarrow> v' = 95) \<and>
     (581 \<le> median_rInt rbuf' \<and> median_rInt rbuf' \<le> 600 \<longrightarrow> v' = 94) \<and>
     (601 \<le> median_rInt rbuf' \<and> median_rInt rbuf' \<le> 620 \<longrightarrow> v' = 93) \<and>
     (621 \<le> median_rInt rbuf' \<and> median_rInt rbuf' \<le> 640 \<longrightarrow> v' = 92) \<and>
     (641 \<le> median_rInt rbuf' \<and> median_rInt rbuf' \<le> 680 \<longrightarrow> v' = 91) \<and>
     (681 \<le> median_rInt rbuf' \<and> median_rInt rbuf' \<le> 720 \<longrightarrow> v' = 90) \<and>
     (721 \<le> median_rInt rbuf' \<and> median_rInt rbuf' \<le> 800 \<longrightarrow> v' = 89) \<and>
     (801 \<le> median_rInt rbuf' \<and> median_rInt rbuf' \<le> 940 \<longrightarrow> v' = 88) \<and>
     (941 \<le> median_rInt rbuf' \<and> median_rInt rbuf' \<le> 980 \<longrightarrow> v' = 87) \<and>
     (981 \<le> median_rInt rbuf' \<and> median_rInt rbuf' \<le> 1020 \<longrightarrow> v' = 86) \<and>
     (1021 \<le> median_rInt rbuf' \<and> median_rInt rbuf' \<le> 1060 \<longrightarrow> v' = 85) \<and>
     (1061 \<le> median_rInt rbuf' \<and> median_rInt rbuf' \<le> 1080 \<longrightarrow> v' = 84) \<and>
     (1081 \<le> median_rInt rbuf' \<and> median_rInt rbuf' \<le> 1100 \<longrightarrow> v' = 83) \<and>
     (1101 \<le> median_rInt rbuf' \<and> median_rInt rbuf' \<le> 1120 \<longrightarrow> v' = 82) \<and>
     (1121 \<le> median_rInt rbuf' \<and> median_rInt rbuf' \<le> 1150 \<longrightarrow> v' = 81) \<and>
     (1151 \<le> median_rInt rbuf' \<and> median_rInt rbuf' \<le> 1170 \<longrightarrow> v' = 80) \<and>
     (1171 \<le> median_rInt rbuf' \<and> median_rInt rbuf' \<le> 1200 \<longrightarrow> v' = 79)) \<and>
     (median_rInt rbuf' > 1200 \<longrightarrow> v' = v) \<and>
     70 \<le> v' \<and> v' \<le> 100 \<and>
     (\<forall>r1 r2 p. r1 \<le> r2 \<and> r2 \<le> 1200 \<longrightarrow> spo2_table r2 p \<le> spo2_table r1 p)"
proof -
  note h = calSpO2_history [OF cal]
  have inv: "(70 \<le> v \<and> v \<le> 100) \<or> rbuf = replicate R_BUFSIZE 0"
    using calSpO2_run_inv [OF run] by simp
  have rows: "(median_rInt rbuf' \<le> 450 \<longrightarrow> v' = 99) \<and>
     (451 \<le> median_rInt rbuf' \<and> median_rInt rbuf' \<le> 470 \<longrightarrow> v' = 98) \<and>
     (471 \<le> median_rInt rbuf' \<and> median_rInt rbuf' \<le> 510 \<longrightarrow> v' = 97) \<and>
     (511 \<le> median_rInt rbuf' \<and> median_rInt rbuf' \<le> 540 \<longrightarrow> v' = 96) \<and>
     (541 \<le> median_rInt rbuf' \<and> median_rInt rbuf' \<le> 580 \<longrightarrow> v' = 95) \<and>
     (581 \<le> median_rInt rbuf' \<and> median_rInt rbuf' \<le> 600 \<longrightarrow> v' = 94) \<and>
     (601 \<le> median_rInt rbuf' \<and> median_rInt rbuf' \<le> 620 \<longrightarrow> v' = 93) \<and>
     (621 \<le> median_rInt rbuf' \<and> median_rInt rbuf' \<le> 640 \<longrightarrow> v' = 92) \<and>
     (641 \<le> median_rInt rbuf' \<and> median_rInt rbuf' \<le> 680 \<longrightarrow> v' = 91) \<and>
     (681 \<le> median_rInt rbuf' \<and> median_rInt rbuf' \<le> 720 \<longrightarrow> v' = 90) \<and>
     (721 \<le> median_rInt rbuf' \<and> median_rInt rbuf' \<le> 800 \<longrightarrow> v' = 89) \<and>
     (801 \<le> median_rInt rbuf' \<and> median_rInt rbuf' \<le> 940 \<longrightarrow> v' = 88) \<and>
     (941 \<le> median_rInt rbuf' \<and> median_rInt rbuf' \<le> 980 \<longrightarrow> v' = 87) \<and>
     (981 \<le> median_rInt rbuf' \<and> median_rInt rbuf' \<le> 1020 \<longrightarrow> v' = 86) \<and>
     (1021 \<le> median_rInt rbuf' \<and> median_rInt rbuf' \<le> 1060 \<longrightarrow> v' = 85) \<and>
     (1061 \<le> median_rInt rbuf' \<and> median_rInt rbuf' \<le> 1080 \<longrightarrow> v' = 84) \<and>
     (1081 \<le> median_rInt rbuf' \<and> median_rInt rbuf' \<le> 1100 \<longrightarrow> v' = 83) \<and>
     (1101 \<le> median_rInt rbuf' \<and> median_rInt rbuf' \<le> 1120 \<longrightarrow> v' = 82) \<and>
     (1121 \<le> median_rInt rbuf' \<and> median_rInt rbuf' \<le> 1150 \<longrightarrow> v' = 81) \<and>
     (1151 \<le> median_rInt rbuf' \<and> median_rInt rbuf' \<le> 1170 \<longrightarrow> v' = 80) \<and>
     (1171 \<le> median_rInt rbuf' \<and> median_rInt rbuf' \<le> 1200 \<longrightarrow> v' = 79)"
    unfolding h(1) by (rule spo2_table_rows)
  have hold: "median_rInt rbuf' > 1200 \<longrightarrow> v' = v"
  proof
    assume m: "median_rInt rbuf' > 1200"
    then have "rbuf \<noteq> replicate R_BUFSIZE 0" using h(3) by auto
    with inv have "70 \<le> v \<and> v \<le> 100" by blast
    then show "v' = v"
      unfolding h(1) using m by (simp add: spo2_table_hold spo2_clamp_idle)
  qed
  have mono: "\<forall>r1 r2 p. r1 \<le> r2 \<and> r2 \<le> 1200 \<longrightarrow> spo2_table r2 p \<le> spo2_table r1 p"
    using spo2_table_mono by blast
  have rest: "(median_rInt rbuf' > 1200 \<longrightarrow> v' = v) \<and>
     70 \<le> v' \<and> v' \<le> 100 \<and>
     (\<forall>r1 r2 p. r1 \<le> r2 \<and> r2 \<le> 1200 \<longrightarrow> spo2_table r2 p \<le> spo2_table r1 p)"
    using hold h(2) mono by (intro conjI) simp_all
  from rows rest show ?thesis by (rule conjI)
qed

lemma replicate5: "replicate 5 x = [x, x, x, x, x]"
  by (simp add: numeral_eq_Suc)

lemma calSpO2_eval:
  "irPeak \<noteq> 0 \<Longrightarrow>
   calSpO2 redPeak irPeak [a, b, c, d, e] v =
     (case d2i (redPeak / irPeak * 1000) of
        None \<Rightarrow> None
      | Some r \<Rightarrow> Some (redPeak / irPeak * 1000, [b, c, d, e, r],
           spo2_clamp (spo2_table (median_rInt [b, c, d, e, r]) v)))"
  by (simp add: calSpO2_def shift5 Let_def split: option.splits)

lemmas d2i_eval = d2i_def trunc0_def int_range_def

lemma median_examples:
  "median_rInt [0, 0, 0, 0, 1000] = 0"
  "median_rInt [0, 0, 0, 1000, 1000] = 0"
  "median_rInt [0, 0, 1000, 1000, 1000] = 1000"
  "median_rInt [0, 1000, 1000, 1000, 1300] = 1000"
  "median_rInt [1000, 1000, 1000, 1300, 1300] = 1000"
  "median_rInt [1000, 1000, 1300, 1300, 1300] = 1300"
  by (simp_all add: median5 bubble5 bubble_swap5)

lemma hold_run:
  "calSpO2_run [(10, 10), (10, 10), (10, 10), (13, 10), (13, 10)] (replicate R_BUFSIZE 0, 0) =
     Some ([1000, 1000, 1000, 1300, 1300], 86)"
  by (simp add: replicate5 calSpO2_eval d2i_eval median_examples spo2_table_def spo2_clamp_def)

lemma hold_call:
  "calSpO2 13 10 [1000, 1000, 1000, 1300, 1300] 86 =
     Some (1300, [1000, 1000, 1300, 1300, 1300], 86)"
  by (simp add: calSpO2_eval d2i_eval median_examples spo2_table_def spo2_clamp_def)

lemma table_run:
  "calSpO2_run [(10, 10), (10, 10)] (replicate R_BUFSIZE 0, 0) =
     Some ([0, 0, 0, 1000, 1000], 99)"
  by (simp add: replicate5 calSpO2_eval d2i_eval median_examples spo2_table_def spo2_clamp_def)

lemma table_call:
  "calSpO2 10 10 [0, 0, 0, 1000, 1000] 99 = Some (1000, [0, 0, 1000, 1000, 1000], 86)"
  by (simp add: calSpO2_eval d2i_eval median_examples spo2_table_def spo2_clamp_def)

text \<open>
  The statement at two analysis cycles: the sixth cycle of a run whose median rises to
  1300 and holds the saturation 86, and the third cycle of a run with ratio 1000, which
  the table maps to 86.
\<close>

theorem calSpO2_table_and_hold_witness:
  "calSpO2_run [(10, 10), (10, 10), (10, 10), (13, 10), (13, 10)] (replicate R_BUFSIZE 0, 0) =
     Some ([1000, 1000, 1000, 1300, 1300], 86) \<and>
   calSpO2 13 10 [1000, 1000, 1000, 1300, 1300] 86 =
     Some (1300, [1000, 1000, 1300, 1300, 1300], 86) \<and>
   median_rInt [1000, 1000, 1300, 1300, 1300] > 1200 \<and>
   calSpO2_run [(10, 10), (10, 10)] (replicate R_BUFSIZE 0, 0) =
     Some ([0, 0, 0, 1000, 1000], 99) \<and>
   calSpO2 10 10 [0, 0, 0, 1000, 1000] 99 = Some (1000, [0, 0, 1000, 1000, 1000], 86) \<and>
   981 \<le> median_rInt [0, 0, 1000, 1000, 1000] \<and>
   median_rInt [0, 0, 1000, 1000, 1000] \<le> 1020"
proof -
  note A = calSpO2_table_and_hold [OF hold_run hold_call]
  note B = calSpO2_table_and_hold [OF table_run table_call]
  have "median_rInt [1000, 1000, 1300, 1300, 1300] > 1200 \<longrightarrow> (86 :: real) = 86"
    using A by blast
  moreover have "981 \<le> median_rInt [0, 0, 1000, 1000, 1000] \<and>
      median_rInt [0, 0, 1000, 1000, 1000] \<le> 1020 \<longrightarrow> (86 :: real) = 86"
    using B by blast
  ultimately show ?thesis
    using hold_run hold_call table_run table_call by (simp add: median_examples)
qed

text \<open>
  Every state of the running channel meets the hypothesis of the theorem: the state at
  program start does, and \<open>InitSPO2\<close> and \<open>SPO2Task\<close> keep it.
\<close>

lemma calSpO2_run_snoc:
  "calSpO2_run (ins @ [(redPeak, irPeak)]) st =
     (case calSpO2_run ins st of
        None \<Rightarrow> None
      | Some (rbuf, v) \<Rightarrow>
          (case calSpO2 redPeak irPeak rbuf v of
             None \<Rightarrow> None
           | Some (rValue, rbuf', v') \<Rightarrow> Some (rbuf', v')))"
proof (induction ins arbitrary: st)
  case Nil
  show ?case by (cases st) (simp split: option.splits)
next
  case (Cons x ins)
  obtain a b where x: "x = (a, b)" by (cases x)
  obtain rbuf v where st: "st = (rbuf, v)" by (cases st)
  show ?case
    by (simp add: x st Cons.IH split: option.splits)
qed

lemma sat_history_start: "sat_history spo2_start"
proof -
  have "calSpO2_run [] (replicate R_BUFSIZE 0, 0) =
      Some (rValue_buf spo2_start, value_SPO2 spo2_start)"
    by (simp add: spo2_start_def)
  then show ?thesis unfolding sat_history_def by blast
qed

lemma sat_history_cong:
  "rValue_buf s' = rValue_buf s \<Longrightarrow> value_SPO2 s' = value_SPO2 s \<Longrightarrow>
     sat_history s \<Longrightarrow> sat_history s'"
  by (simp add: sat_history_def)

lemma sat_history_Init: "sat_history s \<Longrightarrow> sat_history (InitSPO2 s)"
  by (rule sat_history_cong) (simp_all add: InitSPO2_def)

lemma sat_history_analyse:
  assumes a: "spo2_analyse s = Some s'" and h: "sat_history s"
  shows "sat_history s'"
proof -
  from a obtain ppRed ppIR rValue where
    c: "calSpO2 ppRed ppIR (rValue_buf s) (value_SPO2 s) =
          Some (rValue, rValue_buf s', value_SPO2 s')"
    by (auto simp: spo2_analyse_def split: prod.splits option.splits)
  from h obtain ins where
    r: "calSpO2_run ins (replicate R_BUFSIZE 0, 0) = Some (rValue_buf s, value_SPO2 s)"
    unfolding sat_history_def by blast
  have "calSpO2_run (ins @ [(ppRed, ppIR)]) (replicate R_BUFSIZE 0, 0) =
      Some (rValue_buf s', value_SPO2 s')"
    by (simp add: calSpO2_run_snoc r c)
  then show ?thesis unfolding sat_history_def by blast
qed

lemma sat_history_SPO2Task:
  assumes t: "SPO2Task wave now s = Some (outs, s')"
    and i: "SPO2_Wave_index s < SP_WAVE_LEN"
    and h: "sat_history s"
  shows "sat_history s'"
proof -
  from t obtain o0 o2 s0 where f: "spo2_filter s = Some (o0, o2, s0)"
    by (auto simp: SPO2Task_def split: option.splits)
  note fr = spo2_filter_frame [OF f]
  consider (cool) "SPO2_Wave_index s = SP_WAVE_LEN - 1" "adjust_wait_cnt s > 0"
    | (meas) "SPO2_Wave_index s = SP_WAVE_LEN - 1" "adjust_wait_cnt s \<le> 0"
    | (fill) "SPO2_Wave_index s < SP_WAVE_LEN - 1"
    using i by linarith
  then show ?thesis
  proof cases
    case cool
    note r = wrap_cooldown [OF t cool]
    show ?thesis using r(6,7) h by (intro sat_history_cong [of s' s]) simp_all
  next
    case meas
    let ?s2 = "(spo2_store o2 s0)\<lparr>SPO2_Wave_index := 0\<rparr>"
    from t SPO2Task_analyse [OF f meas, of wave now]
    obtain s3 where a: "spo2_analyse ?s2 = Some s3" and e: "s' = snd (auto_gain s3)"
      by (auto split: option.splits)
    have "sat_history ?s2"
      using h by (intro sat_history_cong [of ?s2 s]) (simp_all add: spo2_store_frame fr)
    from sat_history_analyse [OF a this] have "sat_history s3" .
    then show ?thesis
      by (intro sat_history_cong [of s' s3]) (simp_all add: e auto_gain_frame)
  next
    case fill
    from t SPO2Task_nowrap [OF f fill, of wave now]
    have "spo2_tail wave now o0 [] (spo2_store o2 s0) = Some (outs, s')" by simp
    note tf = spo2_tail_frame [OF this]
    show ?thesis
      using h by (intro sat_history_cong [of s' s]) (simp_all add: tf spo2_store_frame fr)
  qed
qed

text \<open>
  For history values that fit a \<open>uint16_t\<close> the middle entry of the sorted copy is the
  median of the history.
\<close>

lemma median_rInt_in_range:
  fixes a :: int
  assumes "0 \<le> a" "a \<le> 65535" "0 \<le> b" "b \<le> 65535" "0 \<le> c" "c \<le> 65535"
    "0 \<le> d" "d \<le> 65535" "0 \<le> e" "e \<le> 65535"
  shows "median_rInt [a, b, c, d, e] = sort [a, b, c, d, e] ! 2"
  using bubbleSort_sorts [OF assms] by (simp only: median5)

lemma median_large:
  "median_rInt [0, 1000, 1000, 1000, 66000] = 1000"
  "median_rInt [1000, 1000, 1000, 66000, 66000] = 1000"
  "median_rInt [1000, 1000, 66000, 66000, 66000] = 66000"
  "median_rInt [1000, 66000, 66000, 66000, 0] = 464"
  by (simp_all add: median5 bubble5 bubble_swap5)

lemma large_run:
  "calSpO2_run [(10, 10), (10, 10), (10, 10), (66, 1), (66, 1), (66, 1)]
     (replicate R_BUFSIZE 0, 0) = Some ([1000, 1000, 66000, 66000, 66000], 86)"
  by (simp add: replicate5 calSpO2_eval d2i_eval median_examples median_large
      spo2_table_def spo2_clamp_def)

lemma large_call:
  "calSpO2 0 10 [1000, 1000, 66000, 66000, 66000] 86 =
     Some (0, [1000, 66000, 66000, 66000, 0], 98)"
  by (simp add: calSpO2_eval d2i_eval median_large spo2_table_def spo2_clamp_def)

text \<open>
  Claim C4 (the median of the history is mapped by the table; a median above 1200
  holds the stored saturation). The code does not do this once a ratio exceeds 65535.
  From program start, three cycles with peak-to-peak values (10, 10) and three with
  (66, 1) leave the history 1000, 1000, 66000, 66000, 66000 and the saturation 86. A
  seventh cycle with (0, 10) makes the history 1000, 66000, 66000, 66000, 0, whose
  median is 66000, above 1200, so the saturation should stay 86. The swap of
  \<open>bubbleSort\<close> stores 66000 through a \<open>uint16_t\<close> as 464, the sorted copy becomes
  0, 1000, 464, 464, 464, the middle entry is 464, and the table sets the saturation
  to 98.
\<close>

theorem median_swap_truncates:
  "calSpO2_run [(10, 10), (10, 10), (10, 10), (66, 1), (66, 1), (66, 1)]
     (replicate R_BUFSIZE 0, 0) = Some ([1000, 1000, 66000, 66000, 66000], 86) \<and>
   calSpO2 0 10 [1000, 1000, 66000, 66000, 66000] 86 =
     Some (0, [1000, 66000, 66000, 66000, 0], 98) \<and>
   sort [1000, 66000, 66000, 66000, 0 :: int] ! 2 = 66000 \<and>
   bubbleSort [1000, 66000, 66000, 66000, 0] 5 = [0, 1000, 464, 464, 464] \<and>
   median_rInt [1000, 66000, 66000, 66000, 0] = 464"
  unfolding large_run large_call
  by (simp add: median_large bubble5 bubble_swap5)

section \<open>The SpO2 rate batch\<close>

text \<open>
  Zero samples on a flat channel: the filters return zero, the window stays zero, and
  from the second call on each call detects a peak, whose rate goes through the batch.
\<close>

lemma calRate_int: "0 < d \<Longrightarrow> calRate (real_of_int d) = Some (60000 div d)"
  using calRate_nat [of "nat d"] by simp

lemma flat_filter:
  assumes q: "spo2_flat s"
  shows "\<exists>s0. spo2_filter (s\<lparr>SPO2_Wave_data_RED := 0, SPO2_Wave_data_IR := 0\<rparr>) =
            Some ((0, 0), (0, 0), s0) \<and> spo2_flat s0 \<and>
            SPO2_Wave_index s0 = SPO2_Wave_index s \<and>
            arr_SPO2_Wave_Rate s0 = arr_SPO2_Wave_Rate s \<and>
            spo2_lastPeak_index s0 = spo2_lastPeak_index s \<and>
            rate_state s0 = rate_state s"
proof -
  from q have b: "sm_buf (smooth_RED s) = replicate SMOOTH_LEN 0"
    "sm_buf (smooth_IR s) = replicate SMOOTH_LEN 0"
    by (simp_all add: spo2_flat_def)
  from smooth_zero [OF b(1)] obtain sr where
    sr: "SmoothingFilter SMOOTH_LEN 0 (smooth_RED s) = Some (0, sr)"
      "sm_buf sr = replicate SMOOTH_LEN 0" by blast
  from smooth_zero [OF b(2)] obtain si where
    si: "SmoothingFilter SMOOTH_LEN 0 (smooth_IR s) = Some (0, si)"
      "sm_buf si = replicate SMOOTH_LEN 0" by blast
  show ?thesis
    using q sr si
    by (simp add: spo2_filter_def spo2_flat_def spo2_IIRHighpass_def spo2_IIRLowpass_def
        biquad_def spo2_IIRHighpass_a_def spo2_IIRHighpass_b_def spo2_IIRLowpass_a_def
        spo2_IIRLowpass_b_def rate_state_def Let_def)
qed

lemma flat_step:
  assumes q: "spo2_flat s" and w: "SPO2_Wave_index s < SP_WAVE_LEN - 2"
  shows "\<exists>s'. SPO2Task False now (s\<lparr>SPO2_Wave_data_RED := 0, SPO2_Wave_data_IR := 0\<rparr>) =
            (if SPO2_Wave_index s = 0 then Some ([], s')
             else if int_range (now - spo2_lastPeak_index s) \<and> now \<noteq> spo2_lastPeak_index s
                  \<and> int_range (trunc0 (60000 / real_of_int (now - spo2_lastPeak_index s)))
             then Some ([], s') else None) \<and>
          spo2_flat s' \<and> SPO2_Wave_index s' = SPO2_Wave_index s + 1 \<and>
          (if SPO2_Wave_index s = 0
           then spo2_lastPeak_index s' = spo2_lastPeak_index s \<and> rate_state s' = rate_state s
           else spo2_lastPeak_index s' = now \<and>
                rate_state s' = rate_state
                  (hr_batch (trunc0 (60000 / real_of_int (now - spo2_lastPeak_index s))) s))"
proof -
  let ?s = "s\<lparr>SPO2_Wave_data_RED := 0, SPO2_Wave_data_IR := 0\<rparr>"
  from flat_filter [OF q] obtain s0 where
    f: "spo2_filter ?s = Some ((0, 0), (0, 0), s0)" and q0: "spo2_flat s0"
    and i0: "SPO2_Wave_index s0 = SPO2_Wave_index s"
    and r0: "arr_SPO2_Wave_Rate s0 = arr_SPO2_Wave_Rate s"
    and l0: "spo2_lastPeak_index s0 = spo2_lastPeak_index s"
    and h0: "rate_state s0 = rate_state s"
    by blast
  let ?s1 = "spo2_store (0, 0) s0"
  have w': "SPO2_Wave_index ?s < SP_WAVE_LEN - 1" using w by simp
  have tk: "SPO2Task False now ?s = spo2_tail False now (0, 0) [] ?s1"
    by (rule SPO2Task_nowrap [OF f w'])
  have len: "length (arr_SPO2_Wave_Rate s) = SP_WAVE_LEN"
    and z: "\<forall>j < SPO2_Wave_index s. arr_SPO2_Wave_Rate s ! j = 0"
    and th: "spo2_peakThreshold s0 = 0"
    using q q0 by (simp_all add: spo2_flat_def)
  have i1: "SPO2_Wave_index ?s1 = SPO2_Wave_index s + 1" by (simp add: spo2_store_def i0)
  have r1: "arr_SPO2_Wave_Rate ?s1 = (arr_SPO2_Wave_Rate s)[SPO2_Wave_index s := 0]"
    by (simp add: spo2_store_def i0 r0)
  have t1: "spo2_peakThreshold ?s1 = 0" by (simp add: spo2_store_frame th)
  have l1: "spo2_lastPeak_index ?s1 = spo2_lastPeak_index s" by (simp add: spo2_store_frame l0)
  have h1: "rate_state ?s1 = rate_state s"
    using h0 by (simp add: rate_state_def spo2_store_frame)
  have z1: "\<forall>j < SPO2_Wave_index s + 1. arr_SPO2_Wave_Rate ?s1 ! j = 0"
  proof (intro allI impI)
    fix j assume "j < SPO2_Wave_index s + 1"
    then show "arr_SPO2_Wave_Rate ?s1 ! j = 0"
      using z w len by (cases "j = SPO2_Wave_index s") (simp_all add: r1)
  qed
  have q1: "spo2_flat ?s1"
    using q0 z1 len
    by (simp add: spo2_flat_def spo2_store_frame i1 r1 t1)
  have cr: "spo2_crossing ?s1 \<longleftrightarrow> SPO2_Wave_index s \<noteq> 0"
    using z1 w by (auto simp: spo2_crossing_def i1 t1)
  show ?thesis
  proof (cases "SPO2_Wave_index s = 0")
    case True
    then have "spo2_tail False now (0, 0) [] ?s1 = Some ([], ?s1)"
      using cr by (simp add: spo2_tail_def spo2_detect_def spo2_print_def)
    with tk q1 i1 l1 h1 True show ?thesis by auto
  next
    case False
    let ?d = "now - spo2_lastPeak_index s"
    let ?r = "trunc0 (60000 / real_of_int ?d)"
    let ?s2 = "hr_batch ?r (?s1\<lparr>spo2_currentPeak_index := now, spo2_lastPeak_index := now\<rparr>)"
    have q2: "spo2_flat ?s2" using q1 by (simp add: spo2_flat_def hr_batch_def Let_def)
    have i2: "SPO2_Wave_index ?s2 = SPO2_Wave_index s + 1"
      using i1 by (simp add: hr_batch_def Let_def)
    have l2: "spo2_lastPeak_index ?s2 = now" by (simp add: hr_batch_def Let_def)
    have h2: "rate_state ?s2 = rate_state (hr_batch ?r s)"
      using h1 by (simp add: rate_state_def hr_batch_def Let_def)
    have "spo2_tail False now (0, 0) [] ?s1 =
        (if int_range ?d \<and> now \<noteq> spo2_lastPeak_index s \<and> int_range ?r
         then Some ([], ?s2) else None)"
      using cr False
      by (simp add: spo2_tail_def spo2_detect_def spo2_print_def c_sub_def calRate_def
          d2i_def l1)
    with tk q2 i2 l2 h2 False show ?thesis by auto
  qed
qed

lemma flat_first:
  assumes q: "spo2_flat s" and i: "SPO2_Wave_index s = 0"
  shows "\<exists>s'. SPO2Task False now (s\<lparr>SPO2_Wave_data_RED := 0, SPO2_Wave_data_IR := 0\<rparr>) =
            Some ([], s') \<and> spo2_flat s' \<and> SPO2_Wave_index s' = 1 \<and>
            spo2_lastPeak_index s' = spo2_lastPeak_index s \<and> rate_state s' = rate_state s"
proof -
  have w: "SPO2_Wave_index s < SP_WAVE_LEN - 2" using i by simp
  from flat_step [OF q w, of now] show ?thesis using i by auto
qed

lemma flat_peak:
  assumes q: "spo2_flat s" and i: "0 < SPO2_Wave_index s"
    and w: "SPO2_Wave_index s < SP_WAVE_LEN - 2"
    and d: "0 < d" "d < 2147483648" and n: "now = spo2_lastPeak_index s + int d"
  shows "\<exists>s'. SPO2Task False now (s\<lparr>SPO2_Wave_data_RED := 0, SPO2_Wave_data_IR := 0\<rparr>) =
            Some ([], s') \<and> spo2_flat s' \<and> SPO2_Wave_index s' = SPO2_Wave_index s + 1 \<and>
            spo2_lastPeak_index s' = now \<and>
            rate_state s' = rate_state (hr_batch (60000 div int d) s)"
proof -
  have e: "now - spo2_lastPeak_index s = int d" using n by simp
  have t: "trunc0 (60000 / real_of_int (int d)) = 60000 div int d"
    using trunc0_rate [OF d(1)] by simp
  have "0 \<le> 60000 div int d" using d by (simp add: pos_imp_zdiv_nonneg_iff)
  moreover have "60000 div int d \<le> 60000"
    using d zdiv_mono2 [of 60000 1 "int d"] by simp
  ultimately have r: "int_range (60000 div int d)" by (simp add: int_range_def)
  have r': "int_range (int d)" using d by (simp add: int_range_def)
  have ne: "now \<noteq> spo2_lastPeak_index s" using n d by simp
  from flat_step [OF q w, of now] show ?thesis
    using i ne r r' unfolding e t by auto
qed

lemma hr_batch_store:
  assumes "rate_state s = (h, n, buf)" and "n \<le> 4"
  shows "rate_state (hr_batch r s) = (h, Suc n, buf[n := r])"
  using assms by (simp add: rate_state_def hr_batch_def)

lemma hr_batch_average:
  assumes "rate_state s = (h, n, [a, b, c, d, e])" and "4 < n"
  shows "rate_state (hr_batch r s) = ((a + b + c + d + e) sdiv 5, 0, [a, b, c, d, e])"
  using assms by (simp add: rate_state_def hr_batch_def upt_small)

lemma spo2_flat_start: "spo2_flat spo2_start"
  by (simp add: spo2_flat_def spo2_start_def smoother_init_def)

text \<open>
  A whole round of the batch takes six peaks, whatever the rates: five are stored, and
  the sixth triggers the average and is itself stored nowhere.
\<close>

lemma hr_batch_round:
  assumes "rate_state s = (h, 0, [a, b, c, d, e])"
  shows "rate_state (fold hr_batch [r1, r2, r3, r4, r5, r6] s) =
           ((r1 + r2 + r3 + r4 + r5) sdiv 5, 0, [r1, r2, r3, r4, r5])"
  using assms by (simp add: rate_state_def hr_batch_def upt_small)

text \<open>
  Claim C5 (batch of five, no rate sample dropped). The code does not do this. From
  power-on, with zero samples and peaks at 1000, 1500, 2500, 3000, 4000, 4100 and 4600
  ms: after the five peaks with rates 60, 120, 60, 120, 60 the batch is full but the
  displayed rate is still 0; the sixth peak (rate 600) sets the displayed rate to 84,
  the mean of the first five, and its own rate is stored nowhere; the seventh peak
  starts the next batch. The displayed rate is refreshed once per six peaks.
\<close>

theorem sixth_rate_sample_dropped:
  "map_option (rate_state \<circ> snd) (spo2_run [(0, 0, 0), (0, 0, 1000), (0, 0, 1500), (0, 0, 2500), (0, 0, 3000), (0, 0, 4000)] spo2_start) = Some (0, 5, [60, 120, 60, 120, 60]) \<and>
   map_option (rate_state \<circ> snd) (spo2_run [(0, 0, 0), (0, 0, 1000), (0, 0, 1500), (0, 0, 2500), (0, 0, 3000), (0, 0, 4000), (0, 0, 4100)] spo2_start) = Some (84, 0, [60, 120, 60, 120, 60]) \<and>
   map_option (rate_state \<circ> snd) (spo2_run [(0, 0, 0), (0, 0, 1000), (0, 0, 1500), (0, 0, 2500), (0, 0, 3000), (0, 0, 4000), (0, 0, 4100), (0, 0, 4600)] spo2_start) = Some (84, 1, [120, 120, 60, 120, 60])"
proof -
  have i0: "SPO2_Wave_index spo2_start = 0" and l0: "spo2_lastPeak_index spo2_start = 0"
    and h0: "rate_state spo2_start = (0, 0, [0, 0, 0, 0, 0])"
    by (simp_all add: spo2_start_def rate_state_def replicate5)
  from flat_first [OF spo2_flat_start i0, of 0] obtain s1 where
    t1: "SPO2Task False 0 (spo2_start\<lparr>SPO2_Wave_data_RED := 0, SPO2_Wave_data_IR := 0\<rparr>) = Some ([], s1)"
    and q1: "spo2_flat s1" and i1: "SPO2_Wave_index s1 = 1"
    and l1: "spo2_lastPeak_index s1 = 0" and h1: "rate_state s1 = (0, 0, [0, 0, 0, 0, 0])"
    unfolding l0 h0 by blast
  have p1: "0 < SPO2_Wave_index s1" "SPO2_Wave_index s1 < SP_WAVE_LEN - 2"
    "(0::nat) < 1000" "(1000::nat) < 2147483648" "1000 = spo2_lastPeak_index s1 + int 1000"
    by (simp_all add: i1 l1)
  from flat_peak [OF q1 p1] obtain s2 where
    t2: "SPO2Task False 1000 (s1\<lparr>SPO2_Wave_data_RED := 0, SPO2_Wave_data_IR := 0\<rparr>) = Some ([], s2)"
    and q2: "spo2_flat s2" and j2: "SPO2_Wave_index s2 = SPO2_Wave_index s1 + 1"
    and l2: "spo2_lastPeak_index s2 = 1000"
    and r2: "rate_state s2 = rate_state (hr_batch (60000 div int 1000) s1)"
    by blast
  have i2: "SPO2_Wave_index s2 = 2" using j2 i1 by simp
  have h2: "rate_state s2 = (0, 1, [60, 0, 0, 0, 0])"
    using hr_batch_store [OF h1, of 60] r2 by simp
  have p2: "0 < SPO2_Wave_index s2" "SPO2_Wave_index s2 < SP_WAVE_LEN - 2"
    "(0::nat) < 500" "(500::nat) < 2147483648" "1500 = spo2_lastPeak_index s2 + int 500"
    by (simp_all add: i2 l2)
  from flat_peak [OF q2 p2] obtain s3 where
    t3: "SPO2Task False 1500 (s2\<lparr>SPO2_Wave_data_RED := 0, SPO2_Wave_data_IR := 0\<rparr>) = Some ([], s3)"
    and q3: "spo2_flat s3" and j3: "SPO2_Wave_index s3 = SPO2_Wave_index s2 + 1"
    and l3: "spo2_lastPeak_index s3 = 1500"
    and r3: "rate_state s3 = rate_state (hr_batch (60000 div int 500) s2)"
    by blast
  have i3: "SPO2_Wave_index s3 = 3" using j3 i2 by simp
  have h3: "rate_state s3 = (0, 2, [60, 120, 0, 0, 0])"
    using hr_batch_store [OF h2, of 120] r3 by simp
  have p3: "0 < SPO2_Wave_index s3" "SPO2_Wave_index s3 < SP_WAVE_LEN - 2"
    "(0::nat) < 1000" "(1000::nat) < 2147483648" "2500 = spo2_lastPeak_index s3 + int 1000"
    by (simp_all add: i3 l3)
  from flat_peak [OF q3 p3] obtain s4 where
    t4: "SPO2Task False 2500 (s3\<lparr>SPO2_Wave_data_RED := 0, SPO2_Wave_data_IR := 0\<rparr>) = Some ([], s4)"
    and q4: "spo2_flat s4" and j4: "SPO2_Wave_index s4 = SPO2_Wave_index s3 + 1"
    and l4: "spo2_lastPeak_index s4 = 2500"
    and r4: "rate_state s4 = rate_state (hr_batch (60000 div int 1000) s3)"
    by blast
  have i4: "SPO2_Wave_index s4 = 4" using j4 i3 by simp
  have h4: "rate_state s4 = (0, 3, [60, 120, 60, 0, 0])"
    using hr_batch_store [OF h3, of 60] r4 by simp
  have p4: "0 < SPO2_Wave_index s4" "SPO2_Wave_index s4 < SP_WAVE_LEN - 2"
    "(0::nat) < 500" "(500::nat) < 2147483648" "3000 = spo2_lastPeak_index s4 + int 500"
    by (simp_all add: i4 l4)
  from flat_peak [OF q4 p4] obtain s5 where
    t5: "SPO2Task False 3000 (s4\<lparr>SPO2_Wave_data_RED := 0, SPO2_Wave_data_IR := 0\<rparr>) = Some ([], s5)"
    and q5: "spo2_flat s5" and j5: "SPO2_Wave_index s5 = SPO2_Wave_index s4 + 1"
    and l5: "spo2_lastPeak_index s5 = 3000"
    and r5: "rate_state s5 = rate_state (hr_batch (60000 div int 500) s4)"
    by blast
  have i5: "SPO2_Wave_index s5 = 5" using j5 i4 by simp
  have h5: "rate_state s5 = (0, 4, [60, 120, 60, 120, 0])"
    using hr_batch_store [OF h4, of 120] r5 by simp
  have p5: "0 < SPO2_Wave_index s5" "SPO2_Wave_index s5 < SP_WAVE_LEN - 2"
    "(0::nat) < 1000" "(1000::nat) < 2147483648" "4000 = spo2_lastPeak_index s5 + int 1000"
    by (simp_all add: i5 l5)
  from flat_peak [OF q5 p5] obtain s6 where
    t6: "SPO2Task False 4000 (s5\<lparr>SPO2_Wave_data_RED := 0, SPO2_Wave_data_IR := 0\<rparr>) = Some ([], s6)"
    and q6: "spo2_flat s6" and j6: "SPO2_Wave_index s6 = SPO2_Wave_index s5 + 1"
    and l6: "spo2_lastPeak_index s6 = 4000"
    and r6: "rate_state s6 = rate_state (hr_batch (60000 div int 1000) s5)"
    by blast
  have i6: "SPO2_Wave_index s6 = 6" using j6 i5 by simp
  have h6: "rate_state s6 = (0, 5, [60, 120, 60, 120, 60])"
    using hr_batch_store [OF h5, of 60] r6 by simp
  have p6: "0 < SPO2_Wave_index s6" "SPO2_Wave_index s6 < SP_WAVE_LEN - 2"
    "(0::nat) < 100" "(100::nat) < 2147483648" "4100 = spo2_lastPeak_index s6 + int 100"
    by (simp_all add: i6 l6)
  from flat_peak [OF q6 p6] obtain s7 where
    t7: "SPO2Task False 4100 (s6\<lparr>SPO2_Wave_data_RED := 0, SPO2_Wave_data_IR := 0\<rparr>) = Some ([], s7)"
    and q7: "spo2_flat s7" and j7: "SPO2_Wave_index s7 = SPO2_Wave_index s6 + 1"
    and l7: "spo2_lastPeak_index s7 = 4100"
    and r7: "rate_state s7 = rate_state (hr_batch (60000 div int 100) s6)"
    by blast
  have i7: "SPO2_Wave_index s7 = 7" using j7 i6 by simp
  have h7: "rate_state s7 = (84, 0, [60, 120, 60, 120, 60])"
    using hr_batch_average [OF h6, of 600] r7 by simp
  have p7: "0 < SPO2_Wave_index s7" "SPO2_Wave_index s7 < SP_WAVE_LEN - 2"
    "(0::nat) < 500" "(500::nat) < 2147483648" "4600 = spo2_lastPeak_index s7 + int 500"
    by (simp_all add: i7 l7)
  from flat_peak [OF q7 p7] obtain s8 where
    t8: "SPO2Task False 4600 (s7\<lparr>SPO2_Wave_data_RED := 0, SPO2_Wave_data_IR := 0\<rparr>) = Some ([], s8)"
    and q8: "spo2_flat s8" and j8: "SPO2_Wave_index s8 = SPO2_Wave_index s7 + 1"
    and l8: "spo2_lastPeak_index s8 = 4600"
    and r8: "rate_state s8 = rate_state (hr_batch (60000 div int 500) s7)"
    by blast
  have i8: "SPO2_Wave_index s8 = 8" using j8 i7 by simp
  have h8: "rate_state s8 = (84, 1, [120, 120, 60, 120, 60])"
    using hr_batch_store [OF h7, of 120] r8 by simp
  have a: "spo2_run [(0, 0, 0), (0, 0, 1000), (0, 0, 1500), (0, 0, 2500), (0, 0, 3000), (0, 0, 4000)] spo2_start = Some ([], s6)"
    by (simp add: t1 t2 t3 t4 t5 t6)
  have b: "spo2_run [(0, 0, 0), (0, 0, 1000), (0, 0, 1500), (0, 0, 2500), (0, 0, 3000), (0, 0, 4000), (0, 0, 4100)] spo2_start = Some ([], s7)"
    by (simp add: t1 t2 t3 t4 t5 t6 t7)
  have c: "spo2_run [(0, 0, 0), (0, 0, 1000), (0, 0, 1500), (0, 0, 2500), (0, 0, 3000), (0, 0, 4000), (0, 0, 4100), (0, 0, 4600)] spo2_start = Some ([], s8)"
    by (simp add: t1 t2 t3 t4 t5 t6 t7 t8)
  show ?thesis unfolding a b c by (simp add: h6 h7 h8)
qed

section \<open>The smoother: fill, then mean\<close>

text \<open>
  The shift loop moves every slot one place down and leaves the last slot as it was;
  storing the new sample there gives the old ring without its head, followed by the
  sample.
\<close>

lemma shift_one:
  "length A = m \<Longrightarrow>
   (A @ b # c # C)[m := (A @ b # c # C) ! Suc m] = (A @ [c]) @ c # C"
  by (simp add: list_update_append nth_append)

lemma shift_fold:
  "m < length buf \<Longrightarrow>
   fold (\<lambda>n b. b[n := b ! (n + 1)]) [0..<m] buf = take m (tl buf) @ drop m buf"
proof (induction m)
  case 0
  show ?case by simp
next
  case (Suc m)
  then have m: "Suc m < length buf" by simp
  have IH: "fold (\<lambda>n b. b[n := b ! (n + 1)]) [0..<m] buf = take m (tl buf) @ drop m buf"
    using Suc by simp
  have "fold (\<lambda>n b. b[n := b ! (n + 1)]) [0..<Suc m] buf =
      (take m (tl buf) @ drop m buf)[m := (take m (tl buf) @ drop m buf) ! (m + 1)]"
    using IH by simp
  also have "\<dots> = take (Suc m) (tl buf) @ drop (Suc m) buf"
  proof -
    have A: "length (take m (tl buf)) = m" using m by simp
    have D: "drop m buf = buf ! m # drop (Suc m) buf"
      using Cons_nth_drop_Suc [of m buf] m by simp
    have E: "drop (Suc m) buf = buf ! Suc m # drop (Suc (Suc m)) buf"
      using Cons_nth_drop_Suc [of "Suc m" buf] m by simp
    have T: "take (Suc m) (tl buf) = take m (tl buf) @ [buf ! Suc m]"
      using take_Suc_conv_app_nth [of m "tl buf"] m by (simp add: nth_tl)
    have "(take m (tl buf) @ buf ! m # buf ! Suc m # drop (Suc (Suc m)) buf)
        [m := (take m (tl buf) @ buf ! m # buf ! Suc m # drop (Suc (Suc m)) buf) ! Suc m] =
        (take m (tl buf) @ [buf ! Suc m]) @ buf ! Suc m # drop (Suc (Suc m)) buf"
      by (rule shift_one [OF A])
    then show ?thesis unfolding T D E by simp
  qed
  finally show ?case .
qed

lemma shift_store:
  assumes "length buf = W" and "0 < W"
  shows "(shift_left W buf)[W - 1 := x] = tl buf @ [x]"
proof -
  have "shift_left W buf = take (W - 1) (tl buf) @ drop (W - 1) buf"
    unfolding shift_left_def using assms by (intro shift_fold) simp
  also have "take (W - 1) (tl buf) = tl buf" using assms by simp
  finally have "shift_left W buf = tl buf @ drop (W - 1) buf" .
  moreover have "length (tl buf) = W - 1" using assms by simp
  moreover have "drop (W - 1) buf = [buf ! (W - 1)]"
    using Cons_nth_drop_Suc [of "W - 1" buf] assms by simp
  ultimately show ?thesis by (simp add: list_update_append)
qed

lemma trunc0_abs: "\<bar>real_of_int (trunc0 x)\<bar> \<le> \<bar>x\<bar>"
  unfolding trunc0_def by (auto; linarith)

lemma trunc0_int: "trunc0 (real_of_int k) = k"
  by (simp add: trunc0_def)

lemma sum_loop_bound:
  assumes "\<forall>n\<in>set ns. \<bar>buf ! n\<bar> \<le> B"
    and "\<bar>real_of_int num\<bar> + real (length ns) * B \<le> 2147483647"
  shows "\<exists>r. sum_loop buf ns num = Some r"
  using assms
proof (induction ns arbitrary: num)
  case Nil
  show ?case by simp
next
  case (Cons n ns)
  let ?y = "real_of_int num + buf ! n"
  have b: "\<bar>buf ! n\<bar> \<le> B" using Cons.prems by simp
  have "\<bar>real_of_int (trunc0 ?y)\<bar> \<le> \<bar>?y\<bar>" by (rule trunc0_abs)
  also have "\<dots> \<le> \<bar>real_of_int num\<bar> + B" using b by linarith
  finally have t: "\<bar>real_of_int (trunc0 ?y)\<bar> \<le> \<bar>real_of_int num\<bar> + B" .
  have B: "0 \<le> B" using b by linarith
  have "real (length ns) * B \<ge> 0" using B by simp
  moreover have e: "real (length (n # ns)) * B = B + real (length ns) * B"
    by (simp add: algebra_simps)
  ultimately have "\<bar>real_of_int (trunc0 ?y)\<bar> \<le> 2147483647"
    using t Cons.prems(2) by linarith
  then have "int_range (trunc0 ?y)" unfolding int_range_def by linarith
  then have d: "d2i ?y = Some (trunc0 ?y)" by (simp add: d2i_def)
  have "\<bar>real_of_int (trunc0 ?y)\<bar> + real (length ns) * B \<le> 2147483647"
    using t Cons.prems(2) e by linarith
  moreover have "\<forall>n\<in>set ns. \<bar>buf ! n\<bar> \<le> B" using Cons.prems by simp
  ultimately obtain r where "sum_loop buf ns (trunc0 ?y) = Some r"
    using Cons.IH by blast
  then show ?case by (simp add: d)
qed

lemma sum_loop_whole:
  assumes "\<forall>n\<in>set ns. buf ! n \<in> \<int>" and "sum_loop buf ns num = Some r"
  shows "real_of_int r = real_of_int num + (\<Sum>n\<leftarrow>ns. buf ! n)"
  using assms
proof (induction ns arbitrary: num)
  case Nil
  then show ?case by simp
next
  case (Cons n ns)
  from Cons.prems obtain k where k: "buf ! n = real_of_int k" by (auto elim: Ints_cases)
  have t: "trunc0 (real_of_int num + buf ! n) = num + k"
    using trunc0_int [of "num + k"] by (simp add: k)
  from Cons.prems(2) have "sum_loop buf ns (num + k) = Some r"
    by (simp add: d2i_def t split: if_splits)
  moreover have "\<forall>n\<in>set ns. buf ! n \<in> \<int>" using Cons.prems by simp
  ultimately have "real_of_int r = real_of_int (num + k) + (\<Sum>n\<leftarrow>ns. buf ! n)"
    using Cons.IH by blast
  then show ?case by (simp add: k)
qed

lemma smooth_run_snoc:
  "smooth_run W (xs @ [x]) s =
     (case smooth_run W xs s of
        None \<Rightarrow> None
      | Some (ys, s') \<Rightarrow>
          (case SmoothingFilter W x s' of
             None \<Rightarrow> None
           | Some (y, s'') \<Rightarrow> Some (ys @ [y], s'')))"
  by (induction xs arbitrary: s) (auto split: option.splits)

lemma ring_length: "length (ring_after W xs) = W"
  by (simp add: ring_after_def)

lemma ring_fill:
  assumes "length xs < W"
  shows "(ring_after W xs)[length xs := x] = ring_after W (xs @ [x])"
proof -
  obtain k where k: "W - length xs = Suc k" using assms by (cases "W - length xs") simp_all
  then have "W - Suc (length xs) = k" by simp
  then show ?thesis using assms k by (simp add: ring_after_def list_update_append)
qed

lemma ring_shift:
  assumes "W \<le> length xs" and "0 < W"
  shows "tl (ring_after W xs) @ [x] = ring_after W (xs @ [x])"
proof -
  have "tl (drop (length xs - W) xs) = drop (Suc (length xs - W)) xs"
    by (simp add: drop_Suc tl_drop)
  moreover have "Suc (length xs - W) = Suc (length xs) - W" using assms by simp
  ultimately show ?thesis using assms by (auto simp: ring_after_def)
qed

lemma smooth_mean_step:
  assumes i: "\<not> sm_i s < W" and W: "0 < W" and len: "length (sm_buf s) = W"
    and bd: "\<forall>b \<in> set (tl (sm_buf s) @ [x]). \<bar>b\<bar> * real W \<le> 2147483647"
  shows "\<exists>y. SmoothingFilter W x s = Some (y, s\<lparr>sm_buf := tl (sm_buf s) @ [x]\<rparr>) \<and>
           (set (tl (sm_buf s) @ [x]) \<subseteq> \<int> \<longrightarrow>
              y = sum_list (tl (sm_buf s) @ [x]) / real W)"
proof -
  let ?buf = "tl (sm_buf s) @ [x]"
  have st: "(shift_left W (sm_buf s))[W - 1 := x] = ?buf" by (rule shift_store [OF len W])
  have l: "length ?buf = W" using len W by simp
  have b: "\<forall>n \<in> set [0..<W]. \<bar>?buf ! n\<bar> \<le> 2147483647 / real W"
  proof
    fix n assume "n \<in> set [0..<W]"
    then have "?buf ! n \<in> set ?buf" using l by (intro nth_mem) simp
    then have "\<bar>?buf ! n\<bar> * real W \<le> 2147483647" using bd by blast
    then show "\<bar>?buf ! n\<bar> \<le> 2147483647 / real W" using W by (simp add: pos_le_divide_eq)
  qed
  have "\<bar>real_of_int 0\<bar> + real (length [0..<W]) * (2147483647 / real W) \<le> 2147483647"
    using W by simp
  from sum_loop_bound [OF b this] obtain r where r: "sum_loop ?buf [0..<W] 0 = Some r"
    by blast
  have f: "SmoothingFilter W x s = Some (real_of_int r * 1.0 / real W, s\<lparr>sm_buf := ?buf\<rparr>)"
    using i by (simp add: SmoothingFilter_def st r del: One_nat_def)
  have "real_of_int r = sum_list ?buf" if z: "set ?buf \<subseteq> \<int>"
  proof -
    have "\<forall>n \<in> set [0..<W]. ?buf ! n \<in> \<int>"
    proof
      fix n assume "n \<in> set [0..<W]"
      then have "?buf ! n \<in> set ?buf" using l by (intro nth_mem) simp
      then show "?buf ! n \<in> \<int>" using z by blast
    qed
    from sum_loop_whole [OF this r]
    have "real_of_int r = (\<Sum>n\<leftarrow>[0..<length ?buf]. ?buf ! n)" using l by simp
    also have "\<dots> = sum_list ?buf" by (simp only: map_nth)
    finally show ?thesis .
  qed
  with f show ?thesis by simp
qed

lemma last_inputs_snoc:
  assumes "W \<le> n" and "n < length xs"
  shows "last_inputs W n (xs @ [x]) = last_inputs W n xs"
  using assms by (simp add: last_inputs_def)

lemma last_inputs_ring:
  assumes "W \<le> length xs" and "0 < W"
  shows "last_inputs W (length xs) (xs @ [x]) = ring_after W (xs @ [x])"
  using assms by (simp add: last_inputs_def ring_after_def)

lemma ring_subset: "W \<le> length zs \<Longrightarrow> set (ring_after W zs) \<subseteq> set zs"
  by (auto simp: ring_after_def dest: in_set_dropD)

lemma smooth_run_inv:
  assumes W: "0 < W"
    and bd: "\<forall>x \<in> set xs. \<bar>x\<bar> * real W \<le> 2147483647"
  shows "\<exists>ys s. smooth_run W xs (smoother_init W) = Some (ys, s) \<and>
           length ys = length xs \<and> sm_i s = min (length xs) W \<and>
           sm_buf s = ring_after W xs \<and>
           (\<forall>n < length xs.
              (n < W \<longrightarrow> ys ! n = xs ! n) \<and>
              (W \<le> n \<and> set (last_inputs W n xs) \<subseteq> \<int> \<longrightarrow>
                 ys ! n = sum_list (last_inputs W n xs) / real W))"
  using bd
proof (induction xs rule: rev_induct)
  case Nil
  show ?case by (simp add: smoother_init_def ring_after_def)
next
  case (snoc x xs)
  from snoc obtain ys s where
    r: "smooth_run W xs (smoother_init W) = Some (ys, s)"
    and ly: "length ys = length xs" and si: "sm_i s = min (length xs) W"
    and sb: "sm_buf s = ring_after W xs"
    and P: "\<forall>n < length xs.
              (n < W \<longrightarrow> ys ! n = xs ! n) \<and>
              (W \<le> n \<and> set (last_inputs W n xs) \<subseteq> \<int> \<longrightarrow>
                 ys ! n = sum_list (last_inputs W n xs) / real W)"
    by auto
  have old: "(n < W \<longrightarrow> (ys @ [y]) ! n = (xs @ [x]) ! n) \<and>
      (W \<le> n \<and> set (last_inputs W n (xs @ [x])) \<subseteq> \<int> \<longrightarrow>
         (ys @ [y]) ! n = sum_list (last_inputs W n (xs @ [x])) / real W)"
    if n: "n < length xs" for n y
  proof (cases "W \<le> n")
    case True
    then show ?thesis
      using P n ly by (simp add: nth_append last_inputs_snoc [OF True n])
  next
    case False
    then show ?thesis using P n ly by (simp add: nth_append)
  qed
  show ?case
  proof (cases "length xs < W")
    case True
    then have f: "SmoothingFilter W x s =
        Some (x, s\<lparr>sm_buf := ring_after W (xs @ [x]), sm_i := Suc (length xs)\<rparr>)"
      using si sb ring_fill [OF True, of x] by (simp add: SmoothingFilter_def)
    have run: "smooth_run W (xs @ [x]) (smoother_init W) =
        Some (ys @ [x], s\<lparr>sm_buf := ring_after W (xs @ [x]), sm_i := Suc (length xs)\<rparr>)"
      by (simp add: smooth_run_snoc r f)
    have new: "(ys @ [x]) ! length xs = (xs @ [x]) ! length xs"
      using ly by (simp add: nth_append)
    have "\<forall>n < length (xs @ [x]).
        (n < W \<longrightarrow> (ys @ [x]) ! n = (xs @ [x]) ! n) \<and>
        (W \<le> n \<and> set (last_inputs W n (xs @ [x])) \<subseteq> \<int> \<longrightarrow>
           (ys @ [x]) ! n = sum_list (last_inputs W n (xs @ [x])) / real W)"
    proof (intro allI impI)
      fix n assume "n < length (xs @ [x])"
      then consider "n < length xs" | "n = length xs" by fastforce
      then show "(n < W \<longrightarrow> (ys @ [x]) ! n = (xs @ [x]) ! n) \<and>
        (W \<le> n \<and> set (last_inputs W n (xs @ [x])) \<subseteq> \<int> \<longrightarrow>
           (ys @ [x]) ! n = sum_list (last_inputs W n (xs @ [x])) / real W)"
      proof cases
        case 1
        then show ?thesis by (rule old)
      next
        case 2
        then show ?thesis using new True by simp
      qed
    qed
    with run ly True show ?thesis by simp
  next
    case False
    then have ge: "W \<le> length xs" by simp
    have i: "\<not> sm_i s < W" using si ge by simp
    have len: "length (sm_buf s) = W" by (simp add: sb ring_length)
    have rs: "tl (sm_buf s) @ [x] = ring_after W (xs @ [x])"
      unfolding sb by (rule ring_shift [OF ge W])
    have sub: "set (ring_after W (xs @ [x])) \<subseteq> set (xs @ [x])"
      using ge by (intro ring_subset) simp
    have bd': "\<forall>b \<in> set (tl (sm_buf s) @ [x]). \<bar>b\<bar> * real W \<le> 2147483647"
      unfolding rs using sub snoc.prems by blast
    from smooth_mean_step [OF i W len bd'] obtain y where
      f: "SmoothingFilter W x s = Some (y, s\<lparr>sm_buf := ring_after W (xs @ [x])\<rparr>)"
      and m: "set (ring_after W (xs @ [x])) \<subseteq> \<int> \<longrightarrow>
                y = sum_list (ring_after W (xs @ [x])) / real W"
      unfolding rs by blast
    have run: "smooth_run W (xs @ [x]) (smoother_init W) =
        Some (ys @ [y], s\<lparr>sm_buf := ring_after W (xs @ [x])\<rparr>)"
      by (simp add: smooth_run_snoc r f)
    have new: "(ys @ [z]) ! length xs = z" for z using ly by (simp add: nth_append)
    have "\<forall>n < length (xs @ [x]).
        (n < W \<longrightarrow> (ys @ [y]) ! n = (xs @ [x]) ! n) \<and>
        (W \<le> n \<and> set (last_inputs W n (xs @ [x])) \<subseteq> \<int> \<longrightarrow>
           (ys @ [y]) ! n = sum_list (last_inputs W n (xs @ [x])) / real W)"
    proof (intro allI impI)
      fix n assume "n < length (xs @ [x])"
      then consider "n < length xs" | "n = length xs" by fastforce
      then show "(n < W \<longrightarrow> (ys @ [y]) ! n = (xs @ [x]) ! n) \<and>
        (W \<le> n \<and> set (last_inputs W n (xs @ [x])) \<subseteq> \<int> \<longrightarrow>
           (ys @ [y]) ! n = sum_list (last_inputs W n (xs @ [x])) / real W)"
      proof cases
        case 1
        then show ?thesis by (rule old)
      next
        case 2
        then show ?thesis
          using new m ge unfolding 2 last_inputs_ring [OF ge W] by simp
      qed
    qed
    with run ly si ge show ?thesis by simp
  qed
qed

text \<open>
  Claim C2, as stated, fails at the \<open>W\<close>-th call: the fill branch is taken while the
  fill counter is below \<open>W\<close>, that is for the first \<open>W\<close> calls, so the \<open>W\<close>-th output is
  the \<open>W\<close>-th input. With window 3 and inputs 1, 2, 6 the third output is 6; the mean of
  the three inputs is 3. Past the fill, the accumulator is an \<open>int\<close>: with four inputs
  1/2 the fourth output is 0, not 1/2.
\<close>

theorem smoother_Wth_call_counterexample:
  "map_option fst (smooth_run 3 [1, 2, 6] (smoother_init 3)) = Some [1, 2, 6] \<and>
   sum_list (last_inputs 3 2 [1, 2, 6]) / 3 = 3 \<and>
   map_option fst (smooth_run 3 [1 / 2, 1 / 2, 1 / 2, 1 / 2] (smoother_init 3)) =
     Some [1 / 2, 1 / 2, 1 / 2, 0] \<and>
   sum_list (last_inputs 3 3 [1 / 2, 1 / 2, 1 / 2, 1 / 2]) / 3 = 1 / 2"
  by code_simp

text \<open>
  Claim C2, amended. A smoother of window \<open>W\<close>, started from its zero state and fed the
  samples \<open>xs\<close> (each small enough that \<open>W\<close> of them sum within \<open>int\<close>), returns on
  every call; each of the first \<open>W\<close> calls returns its input unchanged; and every later
  call whose last \<open>W\<close> inputs are whole numbers returns their arithmetic mean.
\<close>

theorem smoother_fill_then_mean:
  assumes "0 < W" and "\<forall>x \<in> set xs. \<bar>x\<bar> * real W \<le> 2147483647"
  shows "\<exists>ys s. smooth_run W xs (smoother_init W) = Some (ys, s) \<and> length ys = length xs \<and>
           (\<forall>n < length xs.
              (n < W \<longrightarrow> ys ! n = xs ! n) \<and>
              (W \<le> n \<and> set (last_inputs W n xs) \<subseteq> \<int> \<longrightarrow>
                 ys ! n = sum_list (last_inputs W n xs) / real W))"
  using smooth_run_inv [OF assms] by blast

text \<open>Window 3 and the inputs 1, 2, 6, 3, 9: the outputs are 1, 2, 6, 11/3, 6.\<close>

theorem smoother_fill_then_mean_witness:
  "smooth_run 3 [1, 2, 6, 3, 9] (smoother_init 3) \<noteq> None \<and>
   fst (the (smooth_run 3 [1, 2, 6, 3, 9] (smoother_init 3))) ! 1 = 2 \<and>
   fst (the (smooth_run 3 [1, 2, 6, 3, 9] (smoother_init 3))) ! 2 = 6 \<and>
   fst (the (smooth_run 3 [1, 2, 6, 3, 9] (smoother_init 3))) ! 3 = 11 / 3 \<and>
   fst (the (smooth_run 3 [1, 2, 6, 3, 9] (smoother_init 3))) ! 4 = 6"
proof -
  let ?xs = "[1, 2, 6, 3, 9] :: real list"
  have W: "0 < (3::nat)" by simp
  have bd: "\<forall>x \<in> set ?xs. \<bar>x\<bar> * real 3 \<le> 2147483647" by simp
  from smoother_fill_then_mean [OF W bd] obtain ys s where
    r: "smooth_run 3 ?xs (smoother_init 3) = Some (ys, s)" and
    n: "\<forall>n < length ?xs.
          (n < 3 \<longrightarrow> ys ! n = ?xs ! n) \<and>
          (3 \<le> n \<and> set (last_inputs 3 n ?xs) \<subseteq> \<int> \<longrightarrow>
             ys ! n = sum_list (last_inputs 3 n ?xs) / real 3)"
    by blast
  have a: "ys ! 1 = 2" using n [THEN spec, of 1] by simp
  have b: "ys ! 2 = 6" using n [THEN spec, of 2] by simp
  have c: "ys ! 3 = 11 / 3" using n [THEN spec, of 3] by (simp add: last_inputs_def)
  have d: "ys ! 4 = 6" using n [THEN spec, of 4] by (simp add: last_inputs_def)
  show ?thesis unfolding r using a b c d by simp
qed

end
